theory Spec2Isabelle
  imports Complex_Main
begin

section \<open>Numbers and series utilities\<close>

text \<open>
  The indicator functions of \<^verbatim>\<open>utils/technicalIndicators.ts\<close> work on JavaScript
  numbers. Finite numbers are modelled as reals (exact arithmetic, no IEEE rounding and no
  infinities); the value \<^verbatim>\<open>NaN\<close>, which the source pushes as its "not yet computable"
  marker, is a constructor of its own. Periods are counts, so they are naturals.
\<close>

datatype number = NaN | Num real

fun isNaN :: "number \<Rightarrow> bool" where
  "isNaN NaN = True"
| "isNaN (Num v) = False"

text \<open>\<^verbatim>\<open>xs.slice(start, stop)\<close> for \<open>0 \<le> start\<close>: the elements at the indices
  \<open>start, ..., stop - 1\<close> that exist.\<close>

definition slice :: "'a list \<Rightarrow> nat \<Rightarrow> nat \<Rightarrow> 'a list" where
  "slice xs start stop = take (stop - start) (drop start xs)"

text \<open>\<^verbatim>\<open>arr.filter(v => !isNaN(v))\<close>: the numbers of a series, in order.\<close>

fun filterNotNaN :: "number list \<Rightarrow> real list" where
  "filterNotNaN [] = []"
| "filterNotNaN (NaN # xs) = filterNotNaN xs"
| "filterNotNaN (Num v # xs) = v # filterNotNaN xs"

subsection \<open>calculateSMA\<close>

text \<open>
  The loop pushes one entry per index \<open>i\<close>: \<^verbatim>\<open>NaN\<close> while \<open>i < period - 1\<close>, else the sum
  of \<^verbatim>\<open>prices.slice(i - period + 1, i + 1)\<close> divided by the period. With period 0 the
  slice is empty and the quotient is \<^verbatim>\<open>0 / 0\<close>, which is \<^verbatim>\<open>NaN\<close>.
\<close>

definition calculateSMA :: "real list \<Rightarrow> nat \<Rightarrow> number list" where
  "calculateSMA prices period =
     map (\<lambda>i. if i + 1 < period then NaN
              else if period = 0 then NaN
              else Num (sum_list (slice prices (i + 1 - period) (i + 1)) / real period))
         [0..<length prices]"

subsection \<open>calculateEMA\<close>

text \<open>
  The seed is the sum of the first \<open>period\<close> prices that exist, divided by the period
  (\<^verbatim>\<open>0 / 0 = NaN\<close> for period 0). The loop reads back \<^verbatim>\<open>ema[i - 1]\<close>, the entry it
  pushed last: \<open>prev\<close> carries it, and starts as \<^verbatim>\<open>NaN\<close>, since \<^verbatim>\<open>ema[-1]\<close> is
  \<^verbatim>\<open>undefined\<close> and arithmetic on it gives \<^verbatim>\<open>NaN\<close>.
\<close>

fun emaLoop :: "nat \<Rightarrow> real \<Rightarrow> number \<Rightarrow> nat \<Rightarrow> number \<Rightarrow> real list \<Rightarrow> number list" where
  "emaLoop period multiplier firstEMA i prev [] = []"
| "emaLoop period multiplier firstEMA i prev (p # ps) =
     (let v = (if i + 1 < period then NaN
               else if i + 1 = period then firstEMA
               else (case prev of NaN \<Rightarrow> NaN | Num e \<Rightarrow> Num ((p - e) * multiplier + e)))
      in v # emaLoop period multiplier firstEMA (i + 1) v ps)"

definition calculateEMA :: "real list \<Rightarrow> nat \<Rightarrow> number list" where
  "calculateEMA prices period =
     (let multiplier = 2 / (real period + 1);
          firstEMA = (if period = 0 then NaN else Num (sum_list (take period prices) / real period))
      in emaLoop period multiplier firstEMA 0 NaN prices)"

subsection \<open>calculateRSI\<close>

text \<open>
  One loop over the prices keeps the arrays \<open>gains\<close> and \<open>losses\<close> and the running
  \<open>avgGain\<close> and \<open>avgLoss\<close>. Index 0 pushes a zero gain and loss and \<^verbatim>\<open>NaN\<close>;
  \<open>rsiLoop\<close> is the loop from index 1 on, with \<open>prev\<close> the price before. The period is
  positive (the default and the only call use 14): with period 0 the source divides by zero.
\<close>

definition rsiValue :: "real \<Rightarrow> real \<Rightarrow> number" where
  "rsiValue avgGain avgLoss =
     (if avgLoss = 0 then Num (if avgGain = 0 then 50 else 100)
      else (let rs = avgGain / avgLoss in Num (100 - (100 / (1 + rs)))))"

fun rsiLoop :: "nat \<Rightarrow> nat \<Rightarrow> real \<Rightarrow> real list \<Rightarrow> real list \<Rightarrow> real \<Rightarrow> real \<Rightarrow> real list
                 \<Rightarrow> number list" where
  "rsiLoop period i prev gains losses avgGain avgLoss [] = []"
| "rsiLoop period i prev gains losses avgGain avgLoss (p # ps) =
     (let change = p - prev;
          gains' = gains @ [if change > 0 then change else 0];
          losses' = losses @ [if change < 0 then - change else 0]
      in if i < period then
           NaN # rsiLoop period (i + 1) p gains' losses' avgGain avgLoss ps
         else if i = period then
           (let avgGain' = sum_list (slice gains' 1 (period + 1)) / real period;
                avgLoss' = sum_list (slice losses' 1 (period + 1)) / real period
            in rsiValue avgGain' avgLoss'
                 # rsiLoop period (i + 1) p gains' losses' avgGain' avgLoss' ps)
         else
           (let avgGain' = (avgGain * (real period - 1) + gains' ! i) / real period;
                avgLoss' = (avgLoss * (real period - 1) + losses' ! i) / real period
            in rsiValue avgGain' avgLoss'
                 # rsiLoop period (i + 1) p gains' losses' avgGain' avgLoss' ps))"

definition calculateRSI :: "real list \<Rightarrow> nat \<Rightarrow> number list" where
  "calculateRSI prices period =
     (case prices of
        [] \<Rightarrow> []
      | p0 # ps \<Rightarrow> NaN # rsiLoop period 1 p0 [0] [0] 0 0 ps)"



subsection \<open>calculateMACD\<close>

record macdData =
  macd_series :: "number list"
  signal_series :: "number list"
  histogram_series :: "number list"

definition calculateMACD :: "real list \<Rightarrow> nat \<Rightarrow> nat \<Rightarrow> nat \<Rightarrow> macdData" where
  "calculateMACD prices fastPeriod slowPeriod signalPeriod =
     (let ema12 = calculateEMA prices fastPeriod;
          ema26 = calculateEMA prices slowPeriod;
          macd = map (\<lambda>i. case (ema12 ! i, ema26 ! i) of
                              (Num a, Num b) \<Rightarrow> Num (a - b)
                            | _ \<Rightarrow> NaN) [0..<length prices];
          signal = calculateEMA (filterNotNaN macd) signalPeriod;
          paddedSignal = replicate (length macd - length signal) NaN @ signal;
          histogram = map (\<lambda>i. case (macd ! i, paddedSignal ! i) of
                                   (Num m, Num s) \<Rightarrow> Num (m - s)
                                 | _ \<Rightarrow> NaN) [0..<length macd]
      in \<lparr>macd_series = macd, signal_series = paddedSignal, histogram_series = histogram\<rparr>)"

subsection \<open>calculateBollingerBands\<close>

record bollingerData =
  upper_band :: "number list"
  middle_band :: "number list"
  lower_band :: "number list"

text \<open>\<open>band\<close> is the value the loop pushes at index \<open>i\<close>, with sign \<open>1\<close> for the upper
  and \<open>-1\<close> for the lower band; \<open>mean\<close> is \<^verbatim>\<open>middle[i]\<close>.\<close>

definition band :: "real list \<Rightarrow> nat \<Rightarrow> real \<Rightarrow> number list \<Rightarrow> real \<Rightarrow> nat \<Rightarrow> number" where
  "band prices period stdDev middle side i =
     (if i + 1 < period then NaN
      else (case middle ! i of
              NaN \<Rightarrow> NaN
            | Num mean \<Rightarrow>
                (let sl = slice prices (i + 1 - period) (i + 1);
                     variance = sum_list (map (\<lambda>price. (price - mean) ^ 2) sl) / real period;
                     sd = sqrt variance
                 in Num (mean + side * (stdDev * sd)))))"

definition calculateBollingerBands :: "real list \<Rightarrow> nat \<Rightarrow> real \<Rightarrow> bollingerData" where
  "calculateBollingerBands prices period stdDev =
     (let middle = calculateSMA prices period
      in \<lparr>upper_band = map (band prices period stdDev middle 1) [0..<length prices],
          middle_band = middle,
          lower_band = map (band prices period stdDev middle (- 1)) [0..<length prices]\<rparr>)"

subsection \<open>calculateStochastic\<close>

record stochasticData =
  stoch_k :: "number list"
  stoch_d :: "number list"

text \<open>The three series come from the same price rows, so they have one length. With period
  0 the windows are empty, \<^verbatim>\<open>Math.max()\<close> is \<open>-\<infinity>\<close> and the quotient is \<^verbatim>\<open>NaN\<close>.\<close>

definition rawK :: "real list \<Rightarrow> real list \<Rightarrow> real list \<Rightarrow> nat \<Rightarrow> nat \<Rightarrow> number" where
  "rawK highs lows closes period i =
     (if i + 1 < period then NaN
      else if period = 0 then NaN
      else (let highsSlice = slice highs (i + 1 - period) (i + 1);
                lowsSlice = slice lows (i + 1 - period) (i + 1);
                highestHigh = Max (set highsSlice);
                lowestLow = Min (set lowsSlice);
                currentClose = closes ! i
            in Num (if lowestLow = highestHigh then 50
                    else ((currentClose - lowestLow) / (highestHigh - lowestLow)) * 100)))"

definition calculateStochastic ::
    "real list \<Rightarrow> real list \<Rightarrow> real list \<Rightarrow> nat \<Rightarrow> nat \<Rightarrow> stochasticData" where
  "calculateStochastic highs lows closes period smoothK =
     (let k = map (rawK highs lows closes period) [0..<length closes];
          smoothedK = calculateSMA (filterNotNaN k) smoothK;
          paddedK = replicate (length k - length smoothedK) NaN @ smoothedK;
          d = calculateSMA (filterNotNaN paddedK) 3;
          paddedD = replicate (length paddedK - length d) NaN @ d
      in \<lparr>stoch_k = paddedK, stoch_d = paddedD\<rparr>)"

subsection \<open>calculateATR and calculateADX\<close>

definition trueRange :: "real list \<Rightarrow> real list \<Rightarrow> real list \<Rightarrow> nat \<Rightarrow> real" where
  "trueRange highs lows closes i =
     (if i = 0 then highs ! i - lows ! i
      else (let tr1 = highs ! i - lows ! i;
                tr2 = \<bar>highs ! i - closes ! (i - 1)\<bar>;
                tr3 = \<bar>lows ! i - closes ! (i - 1)\<bar>
            in max tr1 (max tr2 tr3)))"

definition calculateATR :: "real list \<Rightarrow> real list \<Rightarrow> real list \<Rightarrow> nat \<Rightarrow> number list" where
  "calculateATR highs lows closes period =
     calculateEMA (map (trueRange highs lows closes) [0..<length closes]) period"

text \<open>
  The source fills \<open>plusDM\<close>, \<open>minusDM\<close> and \<open>tr\<close> in the loop that pushes \<open>adx\<close>; the
  entry at index \<open>i\<close> reads them at indices up to \<open>i\<close> only, so the three arrays are
  computed first here.
\<close>

definition plusDMAt :: "real list \<Rightarrow> real list \<Rightarrow> nat \<Rightarrow> real" where
  "plusDMAt highs lows i =
     (if i = 0 then 0
      else (let highDiff = highs ! i - highs ! (i - 1);
                lowDiff = lows ! (i - 1) - lows ! i
            in if highDiff > lowDiff \<and> highDiff > 0 then highDiff else 0))"

definition minusDMAt :: "real list \<Rightarrow> real list \<Rightarrow> nat \<Rightarrow> real" where
  "minusDMAt highs lows i =
     (if i = 0 then 0
      else (let highDiff = highs ! i - highs ! (i - 1);
                lowDiff = lows ! (i - 1) - lows ! i
            in if lowDiff > highDiff \<and> lowDiff > 0 then lowDiff else 0))"

definition calculateADX :: "real list \<Rightarrow> real list \<Rightarrow> real list \<Rightarrow> nat \<Rightarrow> number list" where
  "calculateADX highs lows closes period =
     (let n = length closes;
          plusDM = map (plusDMAt highs lows) [0..<n];
          minusDM = map (minusDMAt highs lows) [0..<n];
          tr = map (trueRange highs lows closes) [0..<n]
      in map (\<lambda>i. if i = 0 then NaN
                   else if i < period * 2 then NaN
                   else if period = 0 then NaN
                   else (let avgPlusDM = sum_list (slice plusDM (i + 1 - period) (i + 1)) / real period;
                             avgMinusDM = sum_list (slice minusDM (i + 1 - period) (i + 1)) / real period;
                             avgTR = sum_list (slice tr (i + 1 - period) (i + 1)) / real period;
                             plusDI = (if avgTR = 0 then 0 else (avgPlusDM / avgTR) * 100);
                             minusDI = (if avgTR = 0 then 0 else (avgMinusDM / avgTR) * 100);
                             dx = (if plusDI + minusDI = 0 then 0
                                   else (\<bar>plusDI - minusDI\<bar> / (plusDI + minusDI)) * 100)
                         in Num dx))
             [0..<n])"

subsection \<open>calculateAllIndicators\<close>

record PriceData =
  pd_date :: int
  pd_open :: real
  pd_high :: real
  pd_low :: real
  pd_close :: real
  pd_volume :: real

text \<open>An optional field of the result is \<open>None\<close> where the source leaves it
  \<^verbatim>\<open>undefined\<close>. Dates are milliseconds since the epoch.\<close>

record IndicatorResult =
  date :: int
  rsi14 :: "real option"
  macd :: "real option"
  macdSignal :: "real option"
  macdHistogram :: "real option"
  sma20 :: "real option"
  sma50 :: "real option"
  sma200 :: "real option"
  ema12 :: "real option"
  ema26 :: "real option"
  bollingerUpper :: "real option"
  bollingerMiddle :: "real option"
  bollingerLower :: "real option"
  stochasticK :: "real option"
  stochasticD :: "real option"
  atr14 :: "real option"
  adx14 :: "real option"

text \<open>\<^verbatim>\<open>isNaN(arr[i]) ? undefined : arr[i]\<close>; reading past the end of an array gives
  \<^verbatim>\<open>undefined\<close>, of which \<^verbatim>\<open>isNaN\<close> is true.\<close>

fun optional :: "number \<Rightarrow> real option" where
  "optional NaN = None"
| "optional (Num v) = Some v"

definition field :: "number list \<Rightarrow> nat \<Rightarrow> real option" where
  "field arr i = (if i < length arr then optional (arr ! i) else None)"

definition calculateAllIndicators :: "PriceData list \<Rightarrow> IndicatorResult list" where
  "calculateAllIndicators priceData =
     (let closes = map pd_close priceData;
          highs = map pd_high priceData;
          lows = map pd_low priceData;
          rsi14s = calculateRSI closes 14;
          macdData = calculateMACD closes 12 26 9;
          sma20s = calculateSMA closes 20;
          sma50s = calculateSMA closes 50;
          sma200s = calculateSMA closes 200;
          ema12s = calculateEMA closes 12;
          ema26s = calculateEMA closes 26;
          bollinger = calculateBollingerBands closes 20 2;
          stochastic = calculateStochastic highs lows closes 14 3;
          atr14s = calculateATR highs lows closes 14;
          adx14s = calculateADX highs lows closes 14
      in map (\<lambda>i. \<lparr>date = pd_date (priceData ! i),
                     rsi14 = field rsi14s i,
                     macd = field (macd_series macdData) i,
                     macdSignal = field (signal_series macdData) i,
                     macdHistogram = field (histogram_series macdData) i,
                     sma20 = field sma20s i,
                     sma50 = field sma50s i,
                     sma200 = field sma200s i,
                     ema12 = field ema12s i,
                     ema26 = field ema26s i,
                     bollingerUpper = field (upper_band bollinger) i,
                     bollingerMiddle = field (middle_band bollinger) i,
                     bollingerLower = field (lower_band bollinger) i,
                     stochasticK = field (stoch_k stochastic) i,
                     stochasticD = field (stoch_d stochastic) i,
                     atr14 = field atr14s i,
                     adx14 = field adx14s i\<rparr>)
             [0..<length priceData])"

section \<open>The indicator pipeline\<close>

text \<open>
  \<^verbatim>\<open>services/technicalIndicators.service.ts\<close>. The database is explicit state: the
  companies by ticker, each with its price rows, and the table of stored indicators, keyed
  by company and date as the upsert is. Database calls are taken to succeed.
\<close>

text \<open>
  Modelled from the spec: the Prisma schema, which declares the tables and the types of
  their columns, is not among the sources. A row of a table is a record of the columns
  the code reads and writes, after the PricePoint and Prediction entities of the spec;
  numeric columns are numbers, as the arithmetic of the code on them
  (\<^verbatim>\<open>actualPrice.close - previousPrice.close\<close>) takes them to be, and a nullable column
  is an option.
\<close>

record StockPrice =
  sp_companyId :: nat
  sp_date :: int
  sp_open :: real
  sp_high :: real
  sp_low :: real
  sp_close :: real
  sp_volume :: real

record Company =
  c_id :: nat
  c_stockPrices :: "StockPrice list"

type_synonym indicatorTable = "nat \<times> int \<rightharpoonup> IndicatorResult"

record saveResult =
  success :: bool
  savedCount :: nat
  error :: "string option"

text \<open>The price data of a row, as the \<^verbatim>\<open>map\<close> over \<^verbatim>\<open>company.stockPrices\<close> builds it.\<close>

definition priceDataOf :: "StockPrice \<Rightarrow> PriceData" where
  "priceDataOf price =
     \<lparr>pd_date = sp_date price, pd_open = sp_open price, pd_high = sp_high price,
      pd_low = sp_low price, pd_close = sp_close price, pd_volume = sp_volume price\<rparr>"

fun saveLoop :: "nat \<Rightarrow> IndicatorResult list \<Rightarrow> indicatorTable \<Rightarrow> nat \<Rightarrow> indicatorTable \<times> nat" where
  "saveLoop cid [] tbl saved = (tbl, saved)"
| "saveLoop cid (indicator # rest) tbl saved =
     (if rsi14 indicator \<noteq> None \<or> sma20 indicator \<noteq> None
      then saveLoop cid rest (tbl((cid, date indicator) \<mapsto> indicator)) (saved + 1)
      else saveLoop cid rest tbl saved)"

definition calculateAndSaveIndicators ::
    "(string \<rightharpoonup> Company) \<Rightarrow> indicatorTable \<Rightarrow> string \<Rightarrow> saveResult \<times> indicatorTable" where
  "calculateAndSaveIndicators companies tbl ticker =
     (case companies ticker of
        None \<Rightarrow>
          (\<lparr>success = False, savedCount = 0,
            error = Some (''Company '' @ ticker @ '' not found'')\<rparr>, tbl)
      | Some company \<Rightarrow>
          (let priceData = map priceDataOf (sort_key sp_date (c_stockPrices company));
               indicators = calculateAllIndicators priceData;
               (tbl', saved) = saveLoop (c_id company) indicators tbl 0
           in (\<lparr>success = True, savedCount = saved, error = None\<rparr>, tbl')))"

section \<open>The prediction validator\<close>

text \<open>
  \<^verbatim>\<open>PredictionValidationJob.validatePredictions\<close>, over the tables of predictions and
  of price rows.
\<close>

text \<open>
  Modelled from the spec: the Prediction table of the Prisma schema, which is not among
  the sources. A prediction row carries the columns the job and the simulator read and
  write; the enrichment columns are \<open>None\<close> while they are null. \<open>ticker\<close> is the
  ticker of the company the queries include.
\<close>

record Prediction =
  pred_id :: nat
  companyId :: nat
  ticker :: string
  predictionDate :: int
  targetDate :: int
  predictedDirection :: string
  predictedPrice :: "real option"
  confidence :: real
  actualDirection :: "string option"
  actualPrice :: "real option"
  actualChangePercent :: "real option"
  isCorrect :: "bool option"
  confidenceWeightedScore :: "real option"
  priceErrorPercent :: "real option"
  tradingReturn :: "real option"

record Database =
  predictions :: "Prediction list"
  stockPrices :: "StockPrice list"

text \<open>Closes are prices, which are positive: a division by a close of 0, which gives an
  infinity or \<^verbatim>\<open>NaN\<close> in the source, is outside the model.\<close>

definition msPerDay :: int where
  "msPerDay = 86400000"

text \<open>\<^verbatim>\<open>today.setHours(0, 0, 0, 0)\<close>: the start of the local day, for a time zone at
  the fixed offset \<open>tz\<close> milliseconds from UTC.\<close>

definition startOfDay :: "int \<Rightarrow> int \<Rightarrow> int" where
  "startOfDay tz now = now - (now + tz) mod msPerDay"

text \<open>\<^verbatim>\<open>parseFloat(x.toFixed(d))\<close>: \<open>x\<close> rounded to \<open>d\<close> decimals, halves away from
  zero.\<close>

definition toFixed :: "nat \<Rightarrow> real \<Rightarrow> real" where
  "toFixed d x =
     (if x < 0 then - (of_int \<lfloor>(- x) * 10 ^ d + 1 / 2\<rfloor> / 10 ^ d)
      else of_int \<lfloor>x * 10 ^ d + 1 / 2\<rfloor> / 10 ^ d)"

text \<open>\<^verbatim>\<open>findFirst\<close> with \<^verbatim>\<open>orderBy: { date: 'asc' }\<close> and with \<^verbatim>\<open>'desc'\<close>.\<close>

definition findFirstAsc :: "(StockPrice \<Rightarrow> bool) \<Rightarrow> StockPrice list \<Rightarrow> StockPrice option" where
  "findFirstAsc P rows = (case sort_key sp_date (filter P rows) of [] \<Rightarrow> None | r # _ \<Rightarrow> Some r)"

definition findFirstDesc :: "(StockPrice \<Rightarrow> bool) \<Rightarrow> StockPrice list \<Rightarrow> StockPrice option" where
  "findFirstDesc P rows =
     (case rev (sort_key sp_date (filter P rows)) of [] \<Rightarrow> None | r # _ \<Rightarrow> Some r)"

text \<open>The local variables of one loop iteration, from the prediction and the two closes
  (\<open>previousClose\<close> is \<^verbatim>\<open>previousPrice.close\<close>, \<open>actualClose\<close> is
  \<^verbatim>\<open>actualPrice.close\<close>).\<close>

definition actualDirectionOf :: "real \<Rightarrow> real \<Rightarrow> string" where
  "actualDirectionOf previousClose actualClose =
     (let actualChange = actualClose - previousClose
      in if actualChange > 0 then ''up'' else if actualChange < 0 then ''down'' else ''flat'')"

definition isCorrectOf :: "Prediction \<Rightarrow> real \<Rightarrow> real \<Rightarrow> bool" where
  "isCorrectOf prediction previousClose actualClose =
     (let actualDirection = actualDirectionOf previousClose actualClose
      in (predictedDirection prediction = ''up'' \<and> actualDirection = ''up'') \<or>
         (predictedDirection prediction = ''down'' \<and> actualDirection = ''down''))"

text \<open>\<^verbatim>\<open>if (prediction.predictedPrice)\<close> is false for null and for 0. \<open>priceErrorPercentOf\<close>
  and \<open>tradingReturnOf\<close> are the formulas of lines 107 to 138 over the real numbers; they say
  which quantity a variable approximates, not whether the number the iteration holds is 0.\<close>

definition priceErrorPercentOf :: "Prediction \<Rightarrow> real \<Rightarrow> real option" where
  "priceErrorPercentOf prediction actualClose =
     (case predictedPrice prediction of
        None \<Rightarrow> None
      | Some predicted \<Rightarrow>
          if predicted = 0 then None
          else Some (\<bar>(predicted - actualClose) / actualClose\<bar> * 100))"

definition tradingReturnOf :: "Prediction \<Rightarrow> real \<Rightarrow> real \<Rightarrow> real option" where
  "tradingReturnOf prediction previousClose actualClose =
     (if confidence prediction > 0.50 then
        (let positionMultiplier = confidence prediction
         in if predictedDirection prediction = ''up'' then
              (let buyPrice = previousClose;
                   sellPrice = actualClose;
                   grossReturn = ((sellPrice - buyPrice) / buyPrice) * 100
               in Some (grossReturn * positionMultiplier - 0.2))
            else if predictedDirection prediction = ''down'' then
              (let shortPrice = previousClose;
                   coverPrice = actualClose;
                   grossReturn = ((shortPrice - coverPrice) / shortPrice) * 100
               in Some (grossReturn * positionMultiplier - 0.2))
            else None)
      else None)"

text \<open>\<^verbatim>\<open>x ? parseFloat(x.toFixed(2)) : null\<close>: null and 0 are falsy.\<close>

definition truthyToFixed2 :: "real option \<Rightarrow> real option" where
  "truthyToFixed2 x =
     (case x of None \<Rightarrow> None | Some v \<Rightarrow> if v = 0 then None else Some (toFixed 2 v))"

subsection \<open>The two tested metrics in double precision\<close>

text \<open>
  The tests \<^verbatim>\<open>priceErrorPercent ? ... : null\<close> and \<^verbatim>\<open>tradingReturn ? ... : null\<close>
  ask whether a computed number is exactly 0, and there the rounding of the source's
  arithmetic decides. \<open>double\<close> rounds a real to the nearest IEEE 754 double (53
  significant bits, ties to the even significand; overflow and subnormal numbers, which
  prices and percentages do not reach, are left out): \<open>e\<close> is the binary exponent of
  \<open>x\<close>, and the significand is \<open>x\<close> scaled by \<open>2 ^ (52 - e)\<close>, rounded to an integer.
\<close>

definition roundHalfEven :: "real \<Rightarrow> int" where
  "roundHalfEven x =
     (let n = \<lfloor>x\<rfloor>;
          r = x - of_int n
      in if r < 1 / 2 then n
         else if r > 1 / 2 then n + 1
         else if even n then n else n + 1)"

definition pow2 :: "int \<Rightarrow> real" where
  "pow2 e = (if 0 \<le> e then 2 ^ nat e else 1 / 2 ^ nat (- e))"

definition double :: "real \<Rightarrow> real" where
  "double x =
     (if x = 0 then 0
      else (let e = \<lfloor>log 2 \<bar>x\<bar>\<rfloor>
            in of_int (roundHalfEven (x * pow2 (52 - e))) * pow2 (e - 52)))"

text \<open>
  Lines 107 to 138 with every number a double: \<^verbatim>\<open>Number(...)\<close> gives the double of a
  column, the literals \<^verbatim>\<open>100\<close> and \<^verbatim>\<open>0.50\<close> are doubles as they stand,
  \<^verbatim>\<open>0.2\<close> is the double nearest to it, and every operation rounds its exact result.
  The closes are taken to be positive: a division by 0, which gives \<^verbatim>\<open>Infinity\<close> or
  \<^verbatim>\<open>NaN\<close> in the source, is outside this model.
\<close>

definition priceErrorPercentDouble :: "Prediction \<Rightarrow> real \<Rightarrow> real option" where
  "priceErrorPercentDouble prediction actualClose =
     (case predictedPrice prediction of
        None \<Rightarrow> None
      | Some predictedPrice' \<Rightarrow>
          if predictedPrice' = 0 then None
          else (let predicted = double predictedPrice';
                    actual = double actualClose
                in Some (double (\<bar>double (double (predicted - actual) / actual)\<bar> * 100))))"

definition tradingReturnDouble :: "Prediction \<Rightarrow> real \<Rightarrow> real \<Rightarrow> real option" where
  "tradingReturnDouble prediction previousClose actualClose =
     (if double (confidence prediction) > 0.50 then
        (let positionMultiplier = double (confidence prediction)
         in if predictedDirection prediction = ''up'' then
              (let buyPrice = double previousClose;
                   sellPrice = double actualClose;
                   grossReturn = double (double (double (sellPrice - buyPrice) / buyPrice) * 100);
                   tradingReturn' = double (grossReturn * positionMultiplier)
               in Some (double (tradingReturn' - double 0.2)))
            else if predictedDirection prediction = ''down'' then
              (let shortPrice = double previousClose;
                   coverPrice = double actualClose;
                   grossReturn = double (double (double (shortPrice - coverPrice) / shortPrice) * 100);
                   tradingReturn' = double (grossReturn * positionMultiplier)
               in Some (double (tradingReturn' - double 0.2)))
            else None)
      else None)"

text \<open>
  The \<^verbatim>\<open>data\<close> of \<^verbatim>\<open>prisma.prediction.update\<close>, written to a row.
  \<open>priceErrorPercent'\<close> and \<open>tradingReturn'\<close> are the values the two local variables
  of that name hold when the update is made, whatever arithmetic computed them.
\<close>

definition updateDataWith ::
    "Prediction \<Rightarrow> real \<Rightarrow> real \<Rightarrow> real option \<Rightarrow> real option \<Rightarrow> Prediction \<Rightarrow> Prediction" where
  "updateDataWith prediction previousClose actualClose priceErrorPercent' tradingReturn' row =
     (let actualChange = actualClose - previousClose;
          actualChangePercent' = (actualChange / previousClose) * 100;
          isCorrect' = isCorrectOf prediction previousClose actualClose;
          confidenceWeightedScore' = (if isCorrect' then confidence prediction else 0)
      in row\<lparr>actualDirection := Some (actualDirectionOf previousClose actualClose),
             actualPrice := Some actualClose,
             actualChangePercent := Some (toFixed 2 actualChangePercent'),
             isCorrect := Some isCorrect',
             confidenceWeightedScore := Some (toFixed 4 confidenceWeightedScore'),
             priceErrorPercent := truthyToFixed2 priceErrorPercent',
             tradingReturn := truthyToFixed2 tradingReturn'\<rparr>)"

text \<open>The update data of an iteration: the two variables are tested as the doubles the
  iteration computed.\<close>

definition updateData :: "Prediction \<Rightarrow> real \<Rightarrow> real \<Rightarrow> Prediction \<Rightarrow> Prediction" where
  "updateData prediction previousClose actualClose row =
     updateDataWith prediction previousClose actualClose
       (priceErrorPercentDouble prediction actualClose)
       (tradingReturnDouble prediction previousClose actualClose) row"

text \<open>\<^verbatim>\<open>update({ where: { id: prediction.id }, data })\<close>.\<close>

definition updateWhereId :: "nat \<Rightarrow> (Prediction \<Rightarrow> Prediction) \<Rightarrow> Prediction list \<Rightarrow> Prediction list" where
  "updateWhereId i f rows = map (\<lambda>row. if pred_id row = i then f row else row) rows"

record validationCounts =
  validated :: nat
  correct :: nat
  incorrect :: nat

text \<open>The two price lookups of an iteration; \<open>None\<close> where the source logs a warning and
  continues with the next prediction.\<close>

definition lookupCloses :: "StockPrice list \<Rightarrow> Prediction \<Rightarrow> (real \<times> real) option" where
  "lookupCloses prices prediction =
     (let targetDate' = targetDate prediction;
          nextDay = targetDate' + msPerDay
      in case findFirstAsc (\<lambda>r. sp_companyId r = companyId prediction \<and>
                                 sp_date r \<ge> targetDate' \<and> sp_date r < nextDay) prices of
           None \<Rightarrow> None
         | Some actualPriceRow \<Rightarrow>
             (case findFirstDesc (\<lambda>r. sp_companyId r = companyId prediction \<and>
                                       sp_date r \<le> predictionDate prediction) prices of
                None \<Rightarrow> None
              | Some previousPriceRow \<Rightarrow>
                  Some (sp_close previousPriceRow, sp_close actualPriceRow)))"

fun validateLoop ::
    "StockPrice list \<Rightarrow> Prediction list \<Rightarrow> Prediction list \<Rightarrow> validationCounts
       \<Rightarrow> Prediction list \<times> validationCounts" where
  "validateLoop prices [] rows counts = (rows, counts)"
| "validateLoop prices (prediction # rest) rows counts =
     (case lookupCloses prices prediction of
        None \<Rightarrow> validateLoop prices rest rows counts
      | Some (previousClose, actualClose) \<Rightarrow>
          validateLoop prices rest
            (updateWhereId (pred_id prediction) (updateData prediction previousClose actualClose) rows)
            (if isCorrectOf prediction previousClose actualClose
             then counts\<lparr>validated := validated counts + 1, correct := correct counts + 1\<rparr>
             else counts\<lparr>validated := validated counts + 1, incorrect := incorrect counts + 1\<rparr>))"

definition unvalidatedPredictions :: "int \<Rightarrow> Prediction list \<Rightarrow> Prediction list" where
  "unvalidatedPredictions today rows =
     filter (\<lambda>p. targetDate p < today \<and> isCorrect p = None) rows"

definition validatePredictions :: "int \<Rightarrow> int \<Rightarrow> Database \<Rightarrow> Database \<times> validationCounts" where
  "validatePredictions tz now db =
     (let today = startOfDay tz now;
          (rows, counts) =
             validateLoop (stockPrices db) (unvalidatedPredictions today (predictions db))
               (predictions db) \<lparr>validated = 0, correct = 0, incorrect = 0\<rparr>
      in (db\<lparr>predictions := rows\<rparr>, counts))"

text \<open>
  What a run does to one row of the table, for the statement of its effect: a row the
  query selects is written with the update data if both price lookups succeed, any other
  row is left as it is.
\<close>

definition resolveRow :: "StockPrice list \<Rightarrow> Prediction \<Rightarrow> Prediction" where
  "resolveRow prices r =
     (case lookupCloses prices r of
        None \<Rightarrow> r
      | Some (previousClose, actualClose) \<Rightarrow> updateData r previousClose actualClose r)"

definition validateRow :: "int \<Rightarrow> StockPrice list \<Rightarrow> Prediction \<Rightarrow> Prediction" where
  "validateRow today prices r =
     (if targetDate r < today \<and> isCorrect r = None then resolveRow prices r else r)"

section \<open>The trading simulator\<close>

text \<open>
  \<^verbatim>\<open>TradingSimulatorService\<close>. The trade types and recommendations are the string
  literals of the source.
\<close>

record TradingStrategy =
  minConfidence :: real
  positionSize :: real
  maxPositionsPerStock :: nat

record Trade =
  t_date :: int
  t_ticker :: string
  t_type :: string
  t_confidence :: real
  t_entryPrice :: real
  t_exitPrice :: real
  t_return :: real
  t_returnPercent :: real

definition DEFAULT_STRATEGY :: TradingStrategy where
  "DEFAULT_STRATEGY = \<lparr>minConfidence = 0.55, positionSize = 10000, maxPositionsPerStock = 1\<rparr>"

definition startingCapital :: real where
  "startingCapital = 100000"

text \<open>
  Each of the four branches of an iteration computes \<open>previousPrice\<close>, \<open>shares\<close>,
  \<open>tradeReturn\<close> and \<open>returnPercent\<close> by the same expressions, up to the sign of the price
  difference, which follows the type of the trade it pushes. \<open>tradeOf\<close> is the trade a
  branch of type \<open>ty\<close> pushes. \<^verbatim>\<open>Number(x) || 0\<close> and \<^verbatim>\<open>Number(x)\<close> read a null
  column as 0.
\<close>

definition tradeOf :: "string \<Rightarrow> Prediction \<Rightarrow> real \<Rightarrow> Trade" where
  "tradeOf ty prediction positionSize' =
     (let entryPrice = (case actualPrice prediction of None \<Rightarrow> 0 | Some v \<Rightarrow> v);
          actualChangePercent' = (case actualChangePercent prediction of None \<Rightarrow> 0 | Some v \<Rightarrow> v);
          previousPrice = entryPrice / (1 + actualChangePercent' / 100);
          shares = positionSize' / previousPrice;
          tradeReturn = (if ty = ''BUY'' then shares * (entryPrice - previousPrice)
                         else shares * (previousPrice - entryPrice));
          returnPercent = (tradeReturn / positionSize') * 100
      in \<lparr>t_date = targetDate prediction,
          t_ticker = ticker prediction,
          t_type = ty,
          t_confidence = confidence prediction,
          t_entryPrice = previousPrice,
          t_exitPrice = entryPrice,
          t_return = tradeReturn - (positionSize' * 0.002),
          t_returnPercent = returnPercent - 0.2\<rparr>)"

text \<open>The branch an iteration takes: both directions up, both down, else by the predicted
  direction alone.\<close>

definition branchType :: "Prediction \<Rightarrow> string" where
  "branchType prediction =
     (if actualDirection prediction = Some ''up'' \<and> predictedDirection prediction = ''up''
      then ''BUY''
      else if actualDirection prediction = Some ''down'' \<and> predictedDirection prediction = ''down''
      then ''SHORT''
      else if predictedDirection prediction = ''up'' then ''BUY''
      else ''SHORT'')"

text \<open>
  The replay loop. Its state is \<open>currentCapital\<close>, the \<open>trades\<close> pushed so far and the
  map \<open>openPositions\<close>, which the source creates empty, tests in every iteration and
  never writes. Every branch adds to the capital the \<^verbatim>\<open>return\<close> it gave the trade.
\<close>

fun tradeLoop ::
    "TradingStrategy \<Rightarrow> Prediction list \<Rightarrow> real \<Rightarrow> Trade list \<Rightarrow> (nat \<rightharpoonup> unit)
       \<Rightarrow> real \<times> Trade list" where
  "tradeLoop strategy [] currentCapital trades openPositions = (currentCapital, trades)"
| "tradeLoop strategy (prediction # rest) currentCapital trades openPositions =
     (if openPositions (companyId prediction) \<noteq> None
      then tradeLoop strategy rest currentCapital trades openPositions
      else if currentCapital < positionSize strategy
      then tradeLoop strategy rest currentCapital trades openPositions
      else (let trade = tradeOf (branchType prediction) prediction (positionSize strategy)
            in tradeLoop strategy rest (currentCapital + t_return trade) (trades @ [trade])
                 openPositions))"

text \<open>The query: validated predictions at or above the confidence threshold, by target
  date ascending.\<close>

definition simulationPredictions :: "TradingStrategy \<Rightarrow> Prediction list \<Rightarrow> Prediction list" where
  "simulationPredictions strategy rows =
     sort_key targetDate
       (filter (\<lambda>p. isCorrect p \<noteq> None \<and> confidence p \<ge> minConfidence strategy) rows)"

text \<open>The ledger the loop leaves: the capital and the trades, before the summary rounds
  them for display.\<close>

definition simulateLedger :: "TradingStrategy \<Rightarrow> Prediction list \<Rightarrow> real \<times> Trade list" where
  "simulateLedger strategy rows =
     tradeLoop strategy (simulationPredictions strategy rows) startingCapital [] Map.empty"

record SimulationSummary =
  sum_startingCapital :: real
  sum_currentCapital :: real
  sum_totalReturn :: real
  sum_totalTrades :: nat

text \<open>The capital figures of the reported summary and the reported trades; the win, loss,
  Sharpe and drawdown statistics and the grouping by stock are left out.\<close>

definition simulateHistoricalTrading ::
    "TradingStrategy \<Rightarrow> Prediction list \<Rightarrow> SimulationSummary \<times> Trade list" where
  "simulateHistoricalTrading strategy rows =
     (let (currentCapital, trades) = simulateLedger strategy rows;
          totalReturn = currentCapital - startingCapital
      in (\<lparr>sum_startingCapital = startingCapital,
           sum_currentCapital = toFixed 2 currentCapital,
           sum_totalReturn = toFixed 2 totalReturn,
           sum_totalTrades = length trades\<rparr>,
          map (\<lambda>t. t\<lparr>t_return := toFixed 2 (t_return t),
                      t_returnPercent := toFixed 2 (t_returnPercent t),
                      t_entryPrice := toFixed 2 (t_entryPrice t),
                      t_exitPrice := toFixed 2 (t_exitPrice t)\<rparr>) trades))"

subsection \<open>getTradingRecommendations\<close>

record Recommendation =
  r_ticker :: string
  r_recommendation :: string
  r_confidence :: real
  r_predictedDirection :: string
  r_predictedPrice :: real
  r_targetDate :: int

text \<open>The recommendation of one prediction; the company name, the current price and the
  reasoning text are left out.\<close>

definition recommend :: "Prediction \<Rightarrow> Recommendation" where
  "recommend p =
     (let confidence' = confidence p;
          recommendation =
            (if confidence' \<ge> 0.70 then (if predictedDirection p = ''up'' then ''BUY'' else ''SHORT'')
             else if confidence' \<ge> 0.60 then (if predictedDirection p = ''up'' then ''BUY'' else ''SHORT'')
             else ''HOLD'')
      in \<lparr>r_ticker = ticker p,
          r_recommendation = recommendation,
          r_confidence = confidence',
          r_predictedDirection = predictedDirection p,
          r_predictedPrice = (case predictedPrice p of None \<Rightarrow> 0 | Some v \<Rightarrow> v),
          r_targetDate = targetDate p\<rparr>)"

text \<open>The query (target date not before \<open>now\<close>, confidence at least \<open>minConfidence\<close>,
  not yet validated, by confidence descending), then the classification.\<close>

definition getTradingRecommendations :: "int \<Rightarrow> real \<Rightarrow> Prediction list \<Rightarrow> Recommendation list" where
  "getTradingRecommendations now minConfidence' rows =
     map recommend
       (rev (sort_key confidence
          (filter (\<lambda>p. targetDate p \<ge> now \<and> confidence p \<ge> minConfidence' \<and> isCorrect p = None)
             rows)))"

section \<open>Example inputs\<close>

text \<open>An unvalidated "up" prediction for company 1 with confidence 0.8, made on day 0 for
  day 1.\<close>

definition predictionUp :: Prediction where
  "predictionUp =
     \<lparr>pred_id = 1, companyId = 1, ticker = ''EQNR.OL'', predictionDate = 0,
      targetDate = 86400000, predictedDirection = ''up'', predictedPrice = Some 108,
      confidence = 0.8, actualDirection = None, actualPrice = None,
      actualChangePercent = None, isCorrect = None, confidenceWeightedScore = None,
      priceErrorPercent = None, tradingReturn = None\<rparr>"

text \<open>An unvalidated "down" prediction with confidence 0.65.\<close>

definition predictionDown :: Prediction where
  "predictionDown =
     predictionUp\<lparr>pred_id := 2, predictedDirection := ''down'', confidence := 0.65\<rparr>"

text \<open>An "up" prediction with confidence 1 and the predicted price 0.\<close>

definition predictionSure :: Prediction where
  "predictionSure = predictionUp\<lparr>pred_id := 3, confidence := 1, predictedPrice := Some 0\<rparr>"

text \<open>A prediction that is validated already, and one whose target date is day 10.\<close>

definition predictionResolved :: Prediction where
  "predictionResolved =
     predictionUp\<lparr>pred_id := 4, actualDirection := Some ''down'', actualPrice := Some 95,
                   actualChangePercent := Some (- 5), isCorrect := Some False,
                   confidenceWeightedScore := Some 0, tradingReturn := Some (- 4.2)\<rparr>"

definition predictionFuture :: Prediction where
  "predictionFuture = predictionUp\<lparr>pred_id := 5, targetDate := 864000000\<rparr>"

text \<open>A price row of company \<open>cid\<close> at date \<open>d\<close> with close \<open>c\<close>; a database with the
  closes 100 on day 0 and 110 on day 1; and a time of day 2, at 01:00.\<close>

definition priceRow :: "nat \<Rightarrow> int \<Rightarrow> real \<Rightarrow> StockPrice" where
  "priceRow cid d c =
     \<lparr>sp_companyId = cid, sp_date = d, sp_open = c, sp_high = c + 1, sp_low = c - 1,
      sp_close = c, sp_volume = 1000\<rparr>"

definition exampleDb :: Database where
  "exampleDb =
     \<lparr>predictions = [predictionUp, predictionResolved, predictionFuture],
      stockPrices = [priceRow 1 0 100, priceRow 1 86400000 110]\<rparr>"

definition exampleNow :: int where
  "exampleNow = 176400000"

text \<open>A database with the one prediction of confidence 1 and the closes 1000 on day 0 and
  1002 on day 1; and an "up" prediction with confidence 0.54.\<close>

definition sureDb :: Database where
  "sureDb =
     \<lparr>predictions = [predictionSure],
      stockPrices = [priceRow 1 0 1000, priceRow 1 86400000 1002]\<rparr>"

definition predictionSlight :: Prediction where
  "predictionSlight = predictionUp\<lparr>pred_id := 8, confidence := 0.54\<rparr>"

text \<open>A database where the close of day 1 is 108, the predicted price of \<open>predictionUp\<close>.\<close>

definition equalDb :: Database where
  "equalDb =
     \<lparr>predictions = [predictionUp],
      stockPrices = [priceRow 1 0 100, priceRow 1 86400000 108]\<rparr>"

text \<open>Two validated "up" predictions for company 1, for day 1 and day 2, both correct,
  with confidence 0.8.\<close>

definition validatedFirst :: Prediction where
  "validatedFirst =
     predictionUp\<lparr>pred_id := 6, actualDirection := Some ''up'', actualPrice := Some 110,
                   actualChangePercent := Some 10, isCorrect := Some True,
                   confidenceWeightedScore := Some 0.8, tradingReturn := Some 7.8\<rparr>"

definition validatedSecond :: Prediction where
  "validatedSecond = validatedFirst\<lparr>pred_id := 7, targetDate := 172800000\<rparr>"

text \<open>Daily price rows of company 1 with the closes 100, 101, ...; a company with twelve
  of them, and one with sixteen.\<close>

definition dailyRows :: "nat \<Rightarrow> StockPrice list" where
  "dailyRows n = map (\<lambda>d. priceRow 1 (int d * 86400000) (100 + real d)) [0..<n]"

definition twelveRows :: "StockPrice list" where
  "twelveRows = dailyRows 12"

definition twelveDayCompany :: Company where
  "twelveDayCompany = \<lparr>c_id = 1, c_stockPrices = twelveRows\<rparr>"

definition sixteenDayCompany :: Company where
  "sixteenDayCompany = \<lparr>c_id = 1, c_stockPrices = dailyRows 16\<rparr>"

section \<open>Series utilities: facts\<close>

lemma sum_list_slice:
  assumes "b \<le> length xs" and "a \<le> b"
  shows "sum_list (slice xs a b) = (\<Sum>j = a..<b. xs ! j)"
proof -
  have "slice xs a b = map (\<lambda>j. xs ! j) [a..<b]"
    unfolding slice_def using assms by (intro nth_equalityI) auto
  then show ?thesis
    by (simp add: interv_sum_list_conv_sum_set_nat)
qed

lemma filter_from_period: "filter (\<lambda>i. \<not> i + 1 < period) [0..<n] = [period - 1..<n]"
proof (induction n)
  case 0
  show ?case by simp
next
  case (Suc n)
  then show ?case
    by (auto simp: upt_rec[of "period - 1" "Suc n"] not_less)
qed







section \<open>calculateSMA\<close>

lemma calculateSMA_length: "length (calculateSMA prices period) = length prices"
  by (simp add: calculateSMA_def)

lemma calculateSMA_NaN_before:
  assumes "i + 1 < period" and "i < length prices"
  shows "calculateSMA prices period ! i = NaN"
  using assms by (simp add: calculateSMA_def)

lemma calculateSMA_nth:
  assumes "0 < period" and "i < length prices"
  shows "calculateSMA prices period ! i =
          (if i + 1 < period then NaN
           else Num ((\<Sum>j = i + 1 - period..<i + 1. prices ! j) / real period))"
  using assms by (simp add: calculateSMA_def sum_list_slice)

lemma calculateSMA_defined_count:
  assumes "0 < period"
  shows "length (filter (\<lambda>v. \<not> isNaN v) (calculateSMA prices period))
           = length prices + 1 - period"
proof -
  have "filter (\<lambda>v. \<not> isNaN v) (calculateSMA prices period) =
        map (\<lambda>i. Num (sum_list (slice prices (i + 1 - period) (i + 1)) / real period))
          (filter (\<lambda>i. \<not> i + 1 < period) [0..<length prices])"
    using assms unfolding calculateSMA_def filter_map
    by (auto intro!: map_cong filter_cong simp: comp_def)
  then show ?thesis
    using assms filter_from_period[of period "length prices"] by simp
qed

lemma calculateSMA_example:
  "calculateSMA ([100, 102, 101, 105, 103] @ rest) 5 ! 4 = Num 102.2"
proof -
  have "{0..<5::nat} = {0, 1, 2, 3, 4}" by auto
  then show ?thesis
    by (simp add: calculateSMA_nth nth_append)
qed

text \<open>
  Claim C7. For a series of length \<open>L\<close> and a period \<open>p > 0\<close>, \<open>calculateSMA\<close> returns
  \<open>L\<close> entries; the entry at index \<open>i\<close> is \<^verbatim>\<open>NaN\<close> for \<open>i < p - 1\<close> and otherwise the sum
  of the values at the indices \<open>i - p + 1, ..., i\<close> divided by \<open>p\<close>; so exactly
  \<open>max 0 (L - p + 1)\<close> entries are defined. Period 5 on a series that begins
  100, 102, 101, 105, 103 gives 102.2 at index 4.
\<close>

theorem C7_calculateSMA_window_mean:
  assumes "0 < p"
  shows "length (calculateSMA values p) = length values \<and>
         (\<forall>i < length values.
            (i + 1 < p \<longrightarrow> calculateSMA values p ! i = NaN) \<and>
            (p \<le> i + 1 \<longrightarrow>
               calculateSMA values p ! i = Num ((\<Sum>j = i + 1 - p..<i + 1. values ! j) / real p))) \<and>
         int (length (filter (\<lambda>v. \<not> isNaN v) (calculateSMA values p)))
           = max 0 (int (length values) - int p + 1) \<and>
         calculateSMA ([100, 102, 101, 105, 103] @ rest) 5 ! 4 = Num 102.2"
proof -
  have count: "int (length (filter (\<lambda>v. \<not> isNaN v) (calculateSMA values p)))
          = max 0 (int (length values) - int p + 1)"
    using calculateSMA_defined_count[OF assms, of "values"] by simp
  have entries: "\<forall>i < length values.
            (i + 1 < p \<longrightarrow> calculateSMA values p ! i = NaN) \<and>
            (p \<le> i + 1 \<longrightarrow>
               calculateSMA values p ! i = Num ((\<Sum>j = i + 1 - p..<i + 1. values ! j) / real p))"
    using assms by (simp add: calculateSMA_nth)
  show ?thesis
    using count entries calculateSMA_length calculateSMA_example by blast
qed

theorem C7_calculateSMA_window_mean_witness:
  "0 < (5::nat) \<and>
   length (calculateSMA [100, 102, 101, 105, 103, 107] 5) = 6 \<and>
   int (length (filter (\<lambda>v. \<not> isNaN v) (calculateSMA [100, 102, 101, 105, 103, 107] 5))) = 2 \<and>
   calculateSMA [100, 102, 101, 105, 103, 107] 5 ! 4 = Num 102.2"
  using C7_calculateSMA_window_mean[of 5 "[100, 102, 101, 105, 103, 107]" "[107]"]
  by simp

section \<open>calculateEMA\<close>

lemma emaLoop_length: "length (emaLoop period m f i prev ps) = length ps"
  by (induction ps arbitrary: i prev) (simp_all add: Let_def)

lemma emaLoop_NaN_before:
  assumes "i + k + 1 < period" and "k < length ps"
  shows "emaLoop period m f i prev ps ! k = NaN"
  using assms
proof (induction ps arbitrary: i prev k)
  case Nil
  then show ?case by simp
next
  case (Cons p ps)
  show ?case
  proof (cases k)
    case 0
    then show ?thesis using Cons.prems by simp
  next
    case (Suc k')
    then show ?thesis using Cons.prems Cons.IH[of "i + 1" k'] by (simp add: Let_def)
  qed
qed

lemma emaLoop_seed:
  assumes "i + k + 1 = period" and "k < length ps"
  shows "emaLoop period m f i prev ps ! k = f"
  using assms
proof (induction ps arbitrary: i prev k)
  case Nil
  then show ?case by simp
next
  case (Cons p ps)
  show ?case
  proof (cases k)
    case 0
    then show ?thesis using Cons.prems by simp
  next
    case (Suc k')
    then show ?thesis using Cons.prems Cons.IH[of "i + 1" k'] by (simp add: Let_def)
  qed
qed

lemma calculateEMA_length: "length (calculateEMA prices period) = length prices"
  by (simp add: calculateEMA_def Let_def emaLoop_length)

lemma calculateEMA_NaN_before:
  assumes "i + 1 < period" and "i < length prices"
  shows "calculateEMA prices period ! i = NaN"
  using assms emaLoop_NaN_before[of 0 i period prices] by (simp add: calculateEMA_def Let_def)

lemma calculateEMA_seed:
  assumes "i + 1 = period" and "i < length prices"
  shows "calculateEMA prices period ! i = Num (sum_list (take period prices) / real period)"
  using assms emaLoop_seed[of 0 i period prices] by (auto simp add: calculateEMA_def Let_def)

section \<open>calculateRSI\<close>

lemma rsiLoop_length: "length (rsiLoop period i prev gains losses ag al ps) = length ps"
  by (induction ps arbitrary: i prev gains losses ag al) (simp_all add: Let_def)

lemma rsiLoop_NaN_before:
  assumes "i + k < period" and "k < length ps"
  shows "rsiLoop period i prev gains losses ag al ps ! k = NaN"
  using assms
proof (induction ps arbitrary: i prev gains losses ag al k)
  case Nil
  then show ?case by simp
next
  case (Cons p ps)
  show ?case
  proof (cases k)
    case 0
    then show ?thesis using Cons.prems by (simp add: Let_def)
  next
    case (Suc k')
    then show ?thesis using Cons.prems Cons.IH[of "i + 1" k'] by (simp add: Let_def)
  qed
qed

lemma calculateRSI_length: "length (calculateRSI prices period) = length prices"
  by (simp add: calculateRSI_def rsiLoop_length split: list.splits)

lemma calculateRSI_NaN_before:
  assumes "i < period" and "i < length prices"
  shows "calculateRSI prices period ! i = NaN"
proof (cases prices)
  case Nil
  then show ?thesis using assms by simp
next
  case (Cons p0 ps)
  show ?thesis
  proof (cases i)
    case 0
    then show ?thesis using Cons by (simp add: calculateRSI_def)
  next
    case (Suc k)
    then show ?thesis
      using Cons assms rsiLoop_NaN_before[of 1 k period ps] by (simp add: calculateRSI_def)
  qed
qed














section \<open>Padded series and the other indicators\<close>

text \<open>Padding a smoothed series back to the length of the series it was filtered from.\<close>

lemma filterNotNaN_length: "length (filterNotNaN xs) \<le> length xs"
  by (induction xs rule: filterNotNaN.induct) simp_all

lemma filterNotNaN_leading:
  assumes "\<forall>j < a. j < length xs \<longrightarrow> xs ! j = NaN"
  shows "min a (length xs) + length (filterNotNaN xs) \<le> length xs"
  using assms
proof (induction xs arbitrary: a)
  case Nil
  then show ?case by simp
next
  case (Cons x xs)
  show ?case
  proof (cases a)
    case 0
    then show ?thesis using filterNotNaN_length[of "x # xs"] by simp
  next
    case (Suc a')
    then have x: "x = NaN" using Cons.prems by (auto dest: spec[of _ 0])
    have "\<forall>j < a'. j < length xs \<longrightarrow> xs ! j = NaN"
      using Cons.prems Suc by (auto dest: spec[of _ "Suc j" for j])
    then show ?thesis using Cons.IH[of a'] Suc x by simp
  qed
qed

lemma padded_length:
  assumes "length ys = length (filterNotNaN xs)"
  shows "length (replicate (length xs - length ys) NaN @ ys) = length xs"
  using assms filterNotNaN_length[of xs] by simp

lemma padded_NaN_before:
  assumes "length ys = length (filterNotNaN xs)"
    and "\<forall>j < a. j < length xs \<longrightarrow> xs ! j = NaN"
    and "\<forall>j. j + 1 < q \<and> j < length ys \<longrightarrow> ys ! j = NaN"
    and "i + 1 < a + q" and "i < length xs"
  shows "(replicate (length xs - length ys) NaN @ ys) ! i = NaN"
proof (cases "i < length xs - length ys")
  case True
  then show ?thesis by (simp add: nth_append)
next
  case False
  have lead: "min a (length xs) + length ys \<le> length xs"
    using filterNotNaN_leading[OF assms(2)] assms(1) by simp
  have "a \<le> length xs - length ys"
    using lead False assms(5) by (simp add: min_def split: if_splits)
  then have "i - (length xs - length ys) + 1 < q"
    using assms(4) False by linarith
  moreover have "i - (length xs - length ys) < length ys"
    using False assms(5) lead by linarith
  ultimately show ?thesis
    using False assms(3) by (simp add: nth_append)
qed

lemma macd_series_length:
  "length (macd_series (calculateMACD prices fast slow sig)) = length prices"
  by (simp add: calculateMACD_def Let_def)

lemma macd_series_NaN_before:
  assumes "i + 1 < slow" and "i < length prices"
  shows "macd_series (calculateMACD prices fast slow sig) ! i = NaN"
  using assms calculateEMA_NaN_before[of i slow prices]
  by (simp add: calculateMACD_def Let_def split: number.splits)

lemma signal_series_length:
  "length (signal_series (calculateMACD prices fast slow sig)) = length prices"
proof -
  let ?macd = "macd_series (calculateMACD prices fast slow sig)"
  let ?signal = "calculateEMA (filterNotNaN ?macd) sig"
  have "length (replicate (length ?macd - length ?signal) NaN @ ?signal) = length ?macd"
    by (rule padded_length) (simp add: calculateEMA_length)
  then show ?thesis
    unfolding macd_series_length by (simp add: calculateMACD_def Let_def)
qed

lemma signal_series_NaN_before:
  assumes "i + 1 < slow - 1 + sig" and "i < length prices"
  shows "signal_series (calculateMACD prices fast slow sig) ! i = NaN"
proof -
  let ?macd = "macd_series (calculateMACD prices fast slow sig)"
  let ?signal = "calculateEMA (filterNotNaN ?macd) sig"
  have "(replicate (length ?macd - length ?signal) NaN @ ?signal) ! i = NaN"
  proof (rule padded_NaN_before[where a = "slow - 1" and q = sig])
    show "length ?signal = length (filterNotNaN ?macd)"
      by (simp add: calculateEMA_length)
    show "\<forall>j < slow - 1. j < length ?macd \<longrightarrow> ?macd ! j = NaN"
      using macd_series_NaN_before by (simp add: macd_series_length)
    show "\<forall>j. j + 1 < sig \<and> j < length ?signal \<longrightarrow> ?signal ! j = NaN"
      using calculateEMA_NaN_before by (simp add: calculateEMA_length)
    show "i + 1 < slow - 1 + sig" by (rule assms(1))
    show "i < length ?macd" using assms(2) by (simp add: macd_series_length)
  qed
  then show ?thesis
    by (simp add: calculateMACD_def Let_def)
qed

lemma histogram_series_length:
  "length (histogram_series (calculateMACD prices fast slow sig)) = length prices"
  by (simp add: calculateMACD_def Let_def)

lemma histogram_series_NaN_before:
  assumes "i + 1 < slow - 1 + sig" and "i < length prices"
  shows "histogram_series (calculateMACD prices fast slow sig) ! i = NaN"
proof -
  have "signal_series (calculateMACD prices fast slow sig) ! i = NaN"
    using assms by (rule signal_series_NaN_before)
  then show ?thesis
    using assms(2) by (simp add: calculateMACD_def Let_def split: number.splits)
qed

lemma bollinger_lengths:
  "length (upper_band (calculateBollingerBands prices period k)) = length prices"
  "length (middle_band (calculateBollingerBands prices period k)) = length prices"
  "length (lower_band (calculateBollingerBands prices period k)) = length prices"
  by (simp_all add: calculateBollingerBands_def Let_def calculateSMA_length)

lemma bollinger_NaN_before:
  assumes "i + 1 < period" and "i < length prices"
  shows "upper_band (calculateBollingerBands prices period k) ! i = NaN"
    and "middle_band (calculateBollingerBands prices period k) ! i = NaN"
    and "lower_band (calculateBollingerBands prices period k) ! i = NaN"
  using assms
  by (simp_all add: calculateBollingerBands_def Let_def band_def calculateSMA_NaN_before)

lemma stoch_k_length:
  "length (stoch_k (calculateStochastic highs lows closes period smoothK)) = length closes"
proof -
  let ?k = "map (rawK highs lows closes period) [0..<length closes]"
  let ?smoothed = "calculateSMA (filterNotNaN ?k) smoothK"
  have "length (replicate (length ?k - length ?smoothed) NaN @ ?smoothed) = length ?k"
    by (rule padded_length) (simp add: calculateSMA_length)
  then show ?thesis
    by (simp add: calculateStochastic_def Let_def)
qed

lemma stoch_k_NaN_before:
  assumes "i + 1 < period - 1 + smoothK" and "i < length closes"
  shows "stoch_k (calculateStochastic highs lows closes period smoothK) ! i = NaN"
proof -
  let ?k = "map (rawK highs lows closes period) [0..<length closes]"
  let ?smoothed = "calculateSMA (filterNotNaN ?k) smoothK"
  have "(replicate (length ?k - length ?smoothed) NaN @ ?smoothed) ! i = NaN"
  proof (rule padded_NaN_before[where a = "period - 1" and q = smoothK])
    show "length ?smoothed = length (filterNotNaN ?k)"
      by (simp add: calculateSMA_length)
    show "\<forall>j < period - 1. j < length ?k \<longrightarrow> ?k ! j = NaN"
      by (auto simp: rawK_def)
    show "\<forall>j. j + 1 < smoothK \<and> j < length ?smoothed \<longrightarrow> ?smoothed ! j = NaN"
      using calculateSMA_NaN_before by (simp add: calculateSMA_length)
    show "i + 1 < period - 1 + smoothK" by (rule assms(1))
    show "i < length ?k" using assms(2) by simp
  qed
  then show ?thesis
    by (simp add: calculateStochastic_def Let_def)
qed

lemma stoch_d_length:
  "length (stoch_d (calculateStochastic highs lows closes period smoothK)) = length closes"
proof -
  let ?paddedK = "stoch_k (calculateStochastic highs lows closes period smoothK)"
  let ?d = "calculateSMA (filterNotNaN ?paddedK) 3"
  have "length (replicate (length ?paddedK - length ?d) NaN @ ?d) = length ?paddedK"
    by (rule padded_length) (simp add: calculateSMA_length)
  then have "length (replicate (length ?paddedK - length ?d) NaN @ ?d) = length closes"
    unfolding stoch_k_length .
  then show ?thesis
    by (simp add: calculateStochastic_def Let_def)
qed

lemma stoch_d_NaN_before:
  assumes "i + 1 < period - 1 + smoothK - 1 + 3" and "i < length closes"
  shows "stoch_d (calculateStochastic highs lows closes period smoothK) ! i = NaN"
proof -
  let ?paddedK = "stoch_k (calculateStochastic highs lows closes period smoothK)"
  let ?d = "calculateSMA (filterNotNaN ?paddedK) 3"
  have "(replicate (length ?paddedK - length ?d) NaN @ ?d) ! i = NaN"
  proof (rule padded_NaN_before[where a = "period - 1 + smoothK - 1" and q = 3])
    show "length ?d = length (filterNotNaN ?paddedK)"
      by (simp add: calculateSMA_length)
    show "\<forall>j < period - 1 + smoothK - 1. j < length ?paddedK \<longrightarrow> ?paddedK ! j = NaN"
      using stoch_k_NaN_before by (simp add: stoch_k_length)
    show "\<forall>j. j + 1 < 3 \<and> j < length ?d \<longrightarrow> ?d ! j = NaN"
      using calculateSMA_NaN_before[of _ 3] by (simp add: calculateSMA_length)
    show "i + 1 < period - 1 + smoothK - 1 + 3" by (rule assms(1))
    show "i < length ?paddedK" using assms(2) by (simp add: stoch_k_length)
  qed
  then show ?thesis
    by (simp add: calculateStochastic_def Let_def)
qed

lemma calculateATR_length: "length (calculateATR highs lows closes period) = length closes"
  by (simp add: calculateATR_def calculateEMA_length)

lemma calculateATR_NaN_before:
  assumes "i + 1 < period" and "i < length closes"
  shows "calculateATR highs lows closes period ! i = NaN"
  using assms by (simp add: calculateATR_def calculateEMA_NaN_before)

lemma calculateADX_length: "length (calculateADX highs lows closes period) = length closes"
  by (simp add: calculateADX_def Let_def)

lemma calculateADX_NaN_before:
  assumes "i < period * 2" and "i < length closes"
  shows "calculateADX highs lows closes period ! i = NaN"
  using assms by (simp add: calculateADX_def Let_def)

section \<open>calculateAllIndicators: facts\<close>

lemma field_optional: "i < length arr \<Longrightarrow> field arr i = optional (arr ! i)"
  by (simp add: field_def)

lemma field_NaN: "i < length arr \<Longrightarrow> arr ! i = NaN \<Longrightarrow> field arr i = None"
  by (simp add: field_def)

lemma calculateAllIndicators_length:
  "length (calculateAllIndicators priceData) = length priceData"
  by (simp add: calculateAllIndicators_def Let_def)

lemma calculateAllIndicators_nth:
  assumes "i < length priceData"
  shows "calculateAllIndicators priceData ! i =
     (let closes = map pd_close priceData;
          highs = map pd_high priceData;
          lows = map pd_low priceData
      in \<lparr>date = pd_date (priceData ! i),
          rsi14 = field (calculateRSI closes 14) i,
          macd = field (macd_series (calculateMACD closes 12 26 9)) i,
          macdSignal = field (signal_series (calculateMACD closes 12 26 9)) i,
          macdHistogram = field (histogram_series (calculateMACD closes 12 26 9)) i,
          sma20 = field (calculateSMA closes 20) i,
          sma50 = field (calculateSMA closes 50) i,
          sma200 = field (calculateSMA closes 200) i,
          ema12 = field (calculateEMA closes 12) i,
          ema26 = field (calculateEMA closes 26) i,
          bollingerUpper = field (upper_band (calculateBollingerBands closes 20 2)) i,
          bollingerMiddle = field (middle_band (calculateBollingerBands closes 20 2)) i,
          bollingerLower = field (lower_band (calculateBollingerBands closes 20 2)) i,
          stochasticK = field (stoch_k (calculateStochastic highs lows closes 14 3)) i,
          stochasticD = field (stoch_d (calculateStochastic highs lows closes 14 3)) i,
          atr14 = field (calculateATR highs lows closes 14) i,
          adx14 = field (calculateADX highs lows closes 14) i\<rparr>)"
  using assms by (simp add: calculateAllIndicators_def Let_def)

lemmas indicator_lengths =
  calculateRSI_length macd_series_length signal_series_length histogram_series_length
  calculateSMA_length calculateEMA_length bollinger_lengths stoch_k_length stoch_d_length
  calculateATR_length calculateADX_length

lemma fields_are_indicator_values:
  assumes "i < length priceData"
  shows "(let r = calculateAllIndicators priceData ! i;
           closes = map pd_close priceData;
           highs = map pd_high priceData;
           lows = map pd_low priceData
       in date r = pd_date (priceData ! i) \<and>
          rsi14 r = optional (calculateRSI closes 14 ! i) \<and>
          macd r = optional (macd_series (calculateMACD closes 12 26 9) ! i) \<and>
          macdSignal r = optional (signal_series (calculateMACD closes 12 26 9) ! i) \<and>
          macdHistogram r = optional (histogram_series (calculateMACD closes 12 26 9) ! i) \<and>
          sma20 r = optional (calculateSMA closes 20 ! i) \<and>
          sma50 r = optional (calculateSMA closes 50 ! i) \<and>
          sma200 r = optional (calculateSMA closes 200 ! i) \<and>
          ema12 r = optional (calculateEMA closes 12 ! i) \<and>
          ema26 r = optional (calculateEMA closes 26 ! i) \<and>
          bollingerUpper r = optional (upper_band (calculateBollingerBands closes 20 2) ! i) \<and>
          bollingerMiddle r = optional (middle_band (calculateBollingerBands closes 20 2) ! i) \<and>
          bollingerLower r = optional (lower_band (calculateBollingerBands closes 20 2) ! i) \<and>
          stochasticK r = optional (stoch_k (calculateStochastic highs lows closes 14 3) ! i) \<and>
          stochasticD r = optional (stoch_d (calculateStochastic highs lows closes 14 3) ! i) \<and>
          atr14 r = optional (calculateATR highs lows closes 14 ! i) \<and>
          adx14 r = optional (calculateADX highs lows closes 14 ! i))"
  using assms
  by (simp add: calculateAllIndicators_nth Let_def field_optional indicator_lengths)

lemma fields_absent_before_lookback:
  assumes "i < length priceData"
  shows "(let r = calculateAllIndicators priceData ! i
       in (i < 14 \<longrightarrow> rsi14 r = None) \<and>
          (i < 25 \<longrightarrow> macd r = None) \<and>
          (i < 33 \<longrightarrow> macdSignal r = None \<and> macdHistogram r = None) \<and>
          (i < 19 \<longrightarrow> sma20 r = None \<and> bollingerUpper r = None \<and> bollingerMiddle r = None \<and>
                       bollingerLower r = None) \<and>
          (i < 49 \<longrightarrow> sma50 r = None) \<and>
          (i < 199 \<longrightarrow> sma200 r = None) \<and>
          (i < 11 \<longrightarrow> ema12 r = None) \<and>
          (i < 25 \<longrightarrow> ema26 r = None) \<and>
          (i < 15 \<longrightarrow> stochasticK r = None) \<and>
          (i < 17 \<longrightarrow> stochasticD r = None) \<and>
          (i < 13 \<longrightarrow> atr14 r = None) \<and>
          (i < 28 \<longrightarrow> adx14 r = None))"
  using assms
  by (simp add: calculateAllIndicators_nth Let_def field_NaN indicator_lengths
      calculateRSI_NaN_before macd_series_NaN_before signal_series_NaN_before
      histogram_series_NaN_before calculateSMA_NaN_before calculateEMA_NaN_before
      bollinger_NaN_before stoch_k_NaN_before stoch_d_NaN_before calculateATR_NaN_before
      calculateADX_NaN_before)

text \<open>
  Claim C8. \<open>calculateAllIndicators\<close> returns one result per price row, with the date of
  the row; every field of the result at index \<open>i\<close> is the entry at \<open>i\<close> of the series
  its indicator function returns, absent where that entry is \<^verbatim>\<open>NaN\<close> and the number
  else; and every field is absent at the indices before the history its indicator needs
  (14 for the RSI, 25 for the MACD, 33 for its signal and histogram, 19 for SMA 20 and the
  Bollinger bands, 49 and 199 for SMA 50 and 200, 11 and 25 for EMA 12 and 26, 15 and 17
  for the stochastic K and D, 13 for the ATR, 28 for the ADX), never a number.
\<close>

theorem C8_fields_absent_or_indicator_value:
  "length (calculateAllIndicators priceData) = length priceData \<and>
   (\<forall>i < length priceData.
      (let r = calculateAllIndicators priceData ! i;
           closes = map pd_close priceData;
           highs = map pd_high priceData;
           lows = map pd_low priceData
       in date r = pd_date (priceData ! i) \<and>
          rsi14 r = optional (calculateRSI closes 14 ! i) \<and>
          macd r = optional (macd_series (calculateMACD closes 12 26 9) ! i) \<and>
          macdSignal r = optional (signal_series (calculateMACD closes 12 26 9) ! i) \<and>
          macdHistogram r = optional (histogram_series (calculateMACD closes 12 26 9) ! i) \<and>
          sma20 r = optional (calculateSMA closes 20 ! i) \<and>
          sma50 r = optional (calculateSMA closes 50 ! i) \<and>
          sma200 r = optional (calculateSMA closes 200 ! i) \<and>
          ema12 r = optional (calculateEMA closes 12 ! i) \<and>
          ema26 r = optional (calculateEMA closes 26 ! i) \<and>
          bollingerUpper r = optional (upper_band (calculateBollingerBands closes 20 2) ! i) \<and>
          bollingerMiddle r = optional (middle_band (calculateBollingerBands closes 20 2) ! i) \<and>
          bollingerLower r = optional (lower_band (calculateBollingerBands closes 20 2) ! i) \<and>
          stochasticK r = optional (stoch_k (calculateStochastic highs lows closes 14 3) ! i) \<and>
          stochasticD r = optional (stoch_d (calculateStochastic highs lows closes 14 3) ! i) \<and>
          atr14 r = optional (calculateATR highs lows closes 14 ! i) \<and>
          adx14 r = optional (calculateADX highs lows closes 14 ! i)) \<and>
      (let r = calculateAllIndicators priceData ! i
       in (i < 14 \<longrightarrow> rsi14 r = None) \<and>
          (i < 25 \<longrightarrow> macd r = None) \<and>
          (i < 33 \<longrightarrow> macdSignal r = None \<and> macdHistogram r = None) \<and>
          (i < 19 \<longrightarrow> sma20 r = None \<and> bollingerUpper r = None \<and> bollingerMiddle r = None \<and>
                       bollingerLower r = None) \<and>
          (i < 49 \<longrightarrow> sma50 r = None) \<and>
          (i < 199 \<longrightarrow> sma200 r = None) \<and>
          (i < 11 \<longrightarrow> ema12 r = None) \<and>
          (i < 25 \<longrightarrow> ema26 r = None) \<and>
          (i < 15 \<longrightarrow> stochasticK r = None) \<and>
          (i < 17 \<longrightarrow> stochasticD r = None) \<and>
          (i < 13 \<longrightarrow> atr14 r = None) \<and>
          (i < 28 \<longrightarrow> adx14 r = None)))"
  using calculateAllIndicators_length fields_are_indicator_values fields_absent_before_lookback
  by blast

lemma twelveRows_sorted: "sort_key sp_date twelveRows = twelveRows"
  by (simp add: twelveRows_def dailyRows_def priceRow_def upt_rec)

lemma twelve_closes:
  "map pd_close (map priceDataOf twelveRows) = [100, 101, 102, 103, 104, 105, 106, 107, 108, 109, 110, 111]"
  by (simp add: twelveRows_def dailyRows_def priceRow_def priceDataOf_def upt_rec)

lemma twelve_ema12:
  "ema12 (calculateAllIndicators (map priceDataOf twelveRows) ! 11) = Some 105.5"
proof -
  have len: "length (map priceDataOf twelveRows) = 12"
    by (simp add: twelveRows_def dailyRows_def)
  have "calculateEMA (map pd_close (map priceDataOf twelveRows)) 12 ! 11
          = Num (sum_list (take 12 (map pd_close (map priceDataOf twelveRows))) / real 12)"
    by (rule calculateEMA_seed) (simp_all add: twelveRows_def dailyRows_def)
  then have "calculateEMA (map pd_close (map priceDataOf twelveRows)) 12 ! 11 = Num 105.5"
    unfolding twelve_closes by simp
  moreover have "ema12 (calculateAllIndicators (map priceDataOf twelveRows) ! 11)
          = optional (calculateEMA (map pd_close (map priceDataOf twelveRows)) 12 ! 11)"
    using fields_are_indicator_values[of 11 "map priceDataOf twelveRows"] len
    by (simp add: Let_def)
  ultimately show ?thesis by simp
qed

theorem C8_fields_absent_or_indicator_value_witness:
  "length (calculateAllIndicators (map priceDataOf twelveRows)) = 12 \<and>
   date (calculateAllIndicators (map priceDataOf twelveRows) ! 11) = 950400000 \<and>
   rsi14 (calculateAllIndicators (map priceDataOf twelveRows) ! 11) = None \<and>
   sma20 (calculateAllIndicators (map priceDataOf twelveRows) ! 11) = None \<and>
   atr14 (calculateAllIndicators (map priceDataOf twelveRows) ! 11) = None"
proof -
  have len: "length (map priceDataOf twelveRows) = 12"
    by (simp add: twelveRows_def dailyRows_def)
  have d: "pd_date (map priceDataOf twelveRows ! 11) = 950400000"
    by (simp add: twelveRows_def dailyRows_def priceRow_def priceDataOf_def)
  have lt: "11 < length (map priceDataOf twelveRows)"
    using len by simp
  show ?thesis
    using C8_fields_absent_or_indicator_value[of "map priceDataOf twelveRows", THEN conjunct1]
      C8_fields_absent_or_indicator_value[of "map priceDataOf twelveRows", THEN conjunct2, THEN spec, of 11, THEN mp, OF lt,
         unfolded Let_def]
      len d
    by (intro conjI; (elim conjE)?; (assumption | simp))
qed

section \<open>The indicator pipeline: facts\<close>

lemma saveLoop_nothing:
  assumes "\<forall>indicator \<in> set indicators. rsi14 indicator = None \<and> sma20 indicator = None"
  shows "saveLoop cid indicators tbl saved = (tbl, saved)"
  using assms by (induction indicators arbitrary: tbl saved) simp_all

lemma short_history_no_rsi_sma:
  assumes "length priceData \<le> 14"
  shows "\<forall>indicator \<in> set (calculateAllIndicators priceData).
           rsi14 indicator = None \<and> sma20 indicator = None"
proof
  fix indicator assume "indicator \<in> set (calculateAllIndicators priceData)"
  then obtain i where i: "i < length priceData" "indicator = calculateAllIndicators priceData ! i"
    by (auto simp: in_set_conv_nth calculateAllIndicators_length)
  then show "rsi14 indicator = None \<and> sma20 indicator = None"
    using assms fields_absent_before_lookback[of i priceData] by (simp add: Let_def)
qed

text \<open>
  Claim C2 fails on the code: the loop saves a snapshot only if its \<open>rsi14\<close> or its
  \<open>sma20\<close> is defined, although other indicators are defined earlier. For a company
  with twelve price rows the snapshot of index 11 has a defined \<open>ema12\<close>, 105.5, and the
  pipeline saves nothing.
\<close>

theorem C2_ema12_defined_but_not_saved:
  "ema12 (calculateAllIndicators (map priceDataOf (c_stockPrices twelveDayCompany)) ! 11) = Some 105.5 \<and>
   calculateAndSaveIndicators [''EQNR.OL'' \<mapsto> twelveDayCompany] Map.empty ''EQNR.OL''
     = (\<lparr>success = True, savedCount = 0, error = None\<rparr>, Map.empty)"
proof -
  have "length (map priceDataOf twelveRows) \<le> 14"
    by (simp add: twelveRows_def dailyRows_def)
  then have "saveLoop 1 (calculateAllIndicators (map priceDataOf twelveRows)) Map.empty 0
               = (Map.empty, 0)"
    by (intro saveLoop_nothing short_history_no_rsi_sma)
  then show ?thesis
    using twelve_ema12
    by (simp add: calculateAndSaveIndicators_def twelveDayCompany_def twelveRows_sorted Let_def)
qed

lemma rsiValue_defined: "\<exists>v. rsiValue ag al = Num v"
  by (simp add: rsiValue_def Let_def)

lemma rsiLoop_tail:
  "\<exists>gains' losses' ag' al'.
     tl (rsiLoop period i prev gains losses ag al (p # ps))
       = rsiLoop period (i + 1) p gains' losses' ag' al' ps"
proof -
  consider (a) "i < period" | (b) "i = period" | (c) "period < i"
    by linarith
  then show ?thesis
  proof cases
    case a
    then show ?thesis by (simp add: Let_def) blast
  next
    case b
    then show ?thesis by (simp add: Let_def) blast
  next
    case c
    then show ?thesis by (simp add: Let_def) blast
  qed
qed

lemma rsiLoop_defined_from:
  assumes "period \<le> i + k" and "k < length ps"
  shows "\<exists>v. rsiLoop period i prev gains losses ag al ps ! k = Num v"
  using assms
proof (induction ps arbitrary: i prev gains losses ag al k)
  case Nil
  then show ?case by simp
next
  case (Cons p ps)
  show ?case
  proof (cases k)
    case 0
    then show ?thesis
      using Cons.prems rsiValue_defined by (simp add: Let_def)
  next
    case (Suc k')
    obtain gains' losses' ag' al' where
      tail: "tl (rsiLoop period i prev gains losses ag al (p # ps))
               = rsiLoop period (i + 1) p gains' losses' ag' al' ps"
      using rsiLoop_tail by blast
    have "rsiLoop period i prev gains losses ag al (p # ps) ! k
            = tl (rsiLoop period i prev gains losses ag al (p # ps)) ! k'"
      using Suc by (simp add: Let_def)
    moreover have "\<exists>v. rsiLoop period (i + 1) p gains' losses' ag' al' ps ! k' = Num v"
      using Cons.prems Suc by (intro Cons.IH) simp_all
    ultimately show ?thesis
      using tail by simp
  qed
qed

lemma calculateRSI_defined_from:
  assumes "0 < period" and "period \<le> i" and "i < length prices"
  shows "\<exists>v. calculateRSI prices period ! i = Num v"
proof -
  obtain p0 ps where prices: "prices = p0 # ps"
    using assms(3) by (cases prices) auto
  obtain k where i: "i = Suc k"
    using assms(1,2) by (cases i) auto
  show ?thesis
    using rsiLoop_defined_from[of period 1 k ps] assms prices i by (simp add: calculateRSI_def)
qed

lemma saved_iff_from_14:
  assumes "i < length priceData"
  shows "(rsi14 (calculateAllIndicators priceData ! i) \<noteq> None \<or>
          sma20 (calculateAllIndicators priceData ! i) \<noteq> None) \<longleftrightarrow> 14 \<le> i"
proof (cases "14 \<le> i")
  case True
  have "\<exists>v. calculateRSI (map pd_close priceData) 14 ! i = Num v"
    using True assms by (intro calculateRSI_defined_from) simp_all
  moreover have "rsi14 (calculateAllIndicators priceData ! i)
                   = optional (calculateRSI (map pd_close priceData) 14 ! i)"
    using fields_are_indicator_values[OF assms] by (simp add: Let_def)
  ultimately show ?thesis
    using True by auto
next
  case False
  then show ?thesis
    using fields_absent_before_lookback[OF assms] by (simp add: Let_def)
qed

lemma filter_from_index:
  assumes "\<forall>i < length xs. P (xs ! i) \<longleftrightarrow> n \<le> i"
  shows "filter P xs = drop n xs"
proof -
  have "filter P (take n xs) = []"
    using assms by (auto simp: filter_empty_conv in_set_conv_nth)
  moreover have "filter P (drop n xs) = drop n xs"
    using assms by (auto simp: filter_id_conv in_set_conv_nth)
  ultimately show ?thesis
    by (metis append_Nil append_take_drop_id filter_append)
qed

lemma saveLoop_filter:
  "saveLoop cid indicators tbl saved =
     (foldl (\<lambda>t indicator. t((cid, date indicator) \<mapsto> indicator)) tbl
        (filter (\<lambda>indicator. rsi14 indicator \<noteq> None \<or> sma20 indicator \<noteq> None) indicators),
      saved + length (filter (\<lambda>indicator. rsi14 indicator \<noteq> None \<or> sma20 indicator \<noteq> None)
                        indicators))"
  by (induction indicators arbitrary: tbl saved) (simp_all del: not_None_eq)

text \<open>
  What the save loop does in general: for a company that exists, it upserts one snapshot
  for every index of the price history whose snapshot has a defined \<open>rsi14\<close> or a defined
  \<open>sma20\<close>, in order, and no other; these are the indices from 14 on, so the saved count
  is the length of the history less 14.
\<close>

lemma pipeline_saves_from_index_14:
  assumes "companies ticker' = Some company"
  shows "(\<forall>i < length (c_stockPrices company).
            (rsi14 (calculateAllIndicators
                      (map priceDataOf (sort_key sp_date (c_stockPrices company))) ! i) \<noteq> None \<or>
             sma20 (calculateAllIndicators
                      (map priceDataOf (sort_key sp_date (c_stockPrices company))) ! i) \<noteq> None)
            \<longleftrightarrow> 14 \<le> i) \<and>
         calculateAndSaveIndicators companies tbl ticker' =
           (\<lparr>success = True, savedCount = length (c_stockPrices company) - 14, error = None\<rparr>,
            foldl (\<lambda>t indicator. t((c_id company, date indicator) \<mapsto> indicator)) tbl
              (drop 14 (calculateAllIndicators
                          (map priceDataOf (sort_key sp_date (c_stockPrices company))))))"
proof -
  let ?pd = "map priceDataOf (sort_key sp_date (c_stockPrices company))"
  let ?inds = "calculateAllIndicators ?pd"
  let ?guard = "\<lambda>indicator. rsi14 indicator \<noteq> None \<or> sma20 indicator \<noteq> None"
  have len: "length ?pd = length (c_stockPrices company)"
    by simp
  have guard: "\<forall>i < length ?inds. ?guard (?inds ! i) \<longleftrightarrow> 14 \<le> i"
    using saved_iff_from_14[of _ ?pd] by (simp add: calculateAllIndicators_length del: not_None_eq)
  have filt: "filter ?guard ?inds = drop 14 ?inds"
    using guard by (rule filter_from_index)
  have "saveLoop (c_id company) ?inds tbl 0 =
          (foldl (\<lambda>t indicator. t((c_id company, date indicator) \<mapsto> indicator)) tbl (drop 14 ?inds),
           length (c_stockPrices company) - 14)"
    unfolding saveLoop_filter filt by (simp add: calculateAllIndicators_length)
  then have run: "calculateAndSaveIndicators companies tbl ticker' =
           (\<lparr>success = True, savedCount = length (c_stockPrices company) - 14, error = None\<rparr>,
            foldl (\<lambda>t indicator. t((c_id company, date indicator) \<mapsto> indicator)) tbl
              (drop 14 ?inds))"
    using assms by (simp add: calculateAndSaveIndicators_def Let_def)
  have "\<forall>i < length (c_stockPrices company). ?guard (?inds ! i) \<longleftrightarrow> 14 \<le> i"
    using guard by (simp add: calculateAllIndicators_length del: not_None_eq)
  then show ?thesis
    using run by (rule conjI)
qed

lemma pipeline_saves_from_index_14_example:
  "[''EQNR.OL'' \<mapsto> sixteenDayCompany] ''EQNR.OL'' = Some sixteenDayCompany \<and>
   length (c_stockPrices sixteenDayCompany) = 16 \<and>
   fst (calculateAndSaveIndicators [''EQNR.OL'' \<mapsto> sixteenDayCompany] Map.empty ''EQNR.OL'')
     = \<lparr>success = True, savedCount = 2, error = None\<rparr>"
proof -
  have c: "[''EQNR.OL'' \<mapsto> sixteenDayCompany] ''EQNR.OL'' = Some sixteenDayCompany"
    by simp
  have l: "length (c_stockPrices sixteenDayCompany) = 16"
    by (simp add: sixteenDayCompany_def dailyRows_def)
  show ?thesis
    using pipeline_saves_from_index_14[of "[''EQNR.OL'' \<mapsto> sixteenDayCompany]" "''EQNR.OL''" sixteenDayCompany Map.empty,
        OF c, THEN conjunct2] c l
    by simp
qed

section \<open>Double precision: facts\<close>

lemma pow2_powr: "pow2 e = 2 powr real_of_int e"
  by (simp add: pow2_def powr_real_of_int field_simps)

lemma double_0: "double 0 = 0"
  by (simp add: double_def)

text \<open>With the binary exponent of \<open>x\<close> known, \<open>double x\<close> is a computation on rationals.\<close>

lemma double_eval:
  assumes "pow2 e \<le> \<bar>x\<bar>" and "\<bar>x\<bar> < pow2 (e + 1)"
  shows "double x = of_int (roundHalfEven (x * pow2 (52 - e))) * pow2 (e - 52)"
proof -
  have "0 < 2 powr real_of_int e"
    by simp
  then have pos: "0 < \<bar>x\<bar>"
    using assms(1) unfolding pow2_powr by linarith
  have "\<lfloor>log 2 \<bar>x\<bar>\<rfloor> = e"
    using assms pos by (simp add: floor_log_eq_powr_iff pow2_powr)
  then show ?thesis
    using pos by (simp add: double_def Let_def)
qed

text \<open>The literal \<^verbatim>\<open>0.2\<close> and the small integers.\<close>

lemma double_fee: "double 0.2 = 7205759403792794 / 2 ^ 55"
  using double_eval[of "-3" "0.2"] by (simp add: pow2_def roundHalfEven_def)

lemma double_1: "double 1 = 1"
  using double_eval[of 0 1] by (simp add: pow2_def roundHalfEven_def)

lemma double_2: "double 2 = 2"
  using double_eval[of 1 2] by (simp add: pow2_def roundHalfEven_def)

lemma double_minus_2: "double (- 2) = - 2"
  using double_eval[of 1 "- 2"] by (simp add: pow2_def roundHalfEven_def)

lemma double_8: "double 8 = 8"
  using double_eval[of 3 8] by (simp add: pow2_def roundHalfEven_def)

lemma double_10: "double 10 = 10"
  using double_eval[of 3 10] by (simp add: pow2_def roundHalfEven_def)

lemma double_100: "double 100 = 100"
  using double_eval[of 6 100] by (simp add: pow2_def roundHalfEven_def)

lemma double_108: "double 108 = 108"
  using double_eval[of 6 108] by (simp add: pow2_def roundHalfEven_def)

lemma double_110: "double 110 = 110"
  using double_eval[of 6 110] by (simp add: pow2_def roundHalfEven_def)

lemma double_270: "double 270 = 270"
  using double_eval[of 8 270] by (simp add: pow2_def roundHalfEven_def)

lemma double_271: "double 271 = 271"
  using double_eval[of 8 271] by (simp add: pow2_def roundHalfEven_def)

lemma double_1000: "double 1000 = 1000"
  using double_eval[of 9 1000] by (simp add: pow2_def roundHalfEven_def)

lemma double_1002: "double 1002 = 1002"
  using double_eval[of 9 1002] by (simp add: pow2_def roundHalfEven_def)

text \<open>Closes 1000 and 1002 with confidence 1: the quotient, the gross return and the
  product, which is the double of 0.2.\<close>

lemma sure_quotient: "double (2 / 1000) = 4611686018427388 / 2 ^ 61"
  using double_eval[of "-9" "2 / 1000"] by (simp add: pow2_def roundHalfEven_def)

lemma sure_gross: "double (4611686018427388 / 2 ^ 61 * 100) = 7205759403792794 / 2 ^ 55"
  using double_eval[of "-3" "4611686018427388 / 2 ^ 61 * 100"]
  by (simp add: pow2_def roundHalfEven_def)

lemma sure_product: "double (7205759403792794 / 2 ^ 55) = 7205759403792794 / 2 ^ 55"
  using double_eval[of "-3" "7205759403792794 / 2 ^ 55"]
  by (simp add: pow2_def roundHalfEven_def)

lemma tradingReturnDouble_sure:
  assumes "predictedDirection p = ''up''" and "confidence p = 1"
  shows "tradingReturnDouble p 1000 1002 = Some 0"
proof -
  let ?diff = "double (double 1002 - double 1000)"
  let ?quot = "double (?diff / double 1000)"
  let ?gross = "double (?quot * 100)"
  let ?prod = "double (?gross * double 1)"
  have "double 1002 - double 1000 = 2"
    by (simp add: double_1000 double_1002)
  then have diff: "?diff = 2"
    by (simp only: double_2)
  have quot: "?quot = 4611686018427388 / 2 ^ 61"
    by (simp only: diff, simp only: double_1000 sure_quotient)
  have gross: "?gross = 7205759403792794 / 2 ^ 55"
    by (simp only: quot, simp only: sure_gross)
  have "?gross * double 1 = 7205759403792794 / 2 ^ 55"
    by (simp add: gross double_1)
  then have prod: "?prod = 7205759403792794 / 2 ^ 55"
    by (simp only: sure_product)
  have "?prod - double 0.2 = 0"
    by (simp only: prod, simp only: double_fee)
  then have res: "double (?prod - double 0.2) = 0"
    by (simp only: double_0)
  have gt: "double 1 > 0.50"
    by (simp only: double_1) simp
  show ?thesis
    unfolding tradingReturnDouble_def Let_def assms using gt res by simp
qed

text \<open>Closes 270 and 271 with confidence 0.54: the product is one unit in the last place
  above the double of 0.2.\<close>

lemma double_confidence_slight: "double 0.54 = 4863887597560136 / 2 ^ 53"
  using double_eval[of "-1" "0.54"] by (simp add: pow2_def roundHalfEven_def)

lemma slight_quotient: "double (1 / 270) = 8540159293384052 / 2 ^ 61"
  using double_eval[of "-9" "1 / 270"] by (simp add: pow2_def roundHalfEven_def)

lemma slight_gross: "double (8540159293384052 / 2 ^ 61 * 100) = 6671999447956291 / 2 ^ 54"
  using double_eval[of "-2" "8540159293384052 / 2 ^ 61 * 100"]
  by (simp add: pow2_def roundHalfEven_def)

lemma slight_product:
  "double (6671999447956291 / 2 ^ 54 * (4863887597560136 / 2 ^ 53)) = 7205759403792795 / 2 ^ 55"
  using double_eval[of "-3" "6671999447956291 / 2 ^ 54 * (4863887597560136 / 2 ^ 53)"]
  by (simp add: pow2_def roundHalfEven_def)

lemma slight_difference: "double (1 / 2 ^ 55) = 1 / 2 ^ 55"
  using double_eval[of "-55" "1 / 2 ^ 55"] by (simp add: pow2_def roundHalfEven_def)

lemma tradingReturnDouble_slight:
  assumes "predictedDirection p = ''up''" and "confidence p = 0.54"
  shows "tradingReturnDouble p 270 271 = Some (1 / 2 ^ 55)"
proof -
  let ?diff = "double (double 271 - double 270)"
  let ?quot = "double (?diff / double 270)"
  let ?gross = "double (?quot * 100)"
  let ?prod = "double (?gross * double 0.54)"
  have "double 271 - double 270 = 1"
    by (simp add: double_270 double_271)
  then have diff: "?diff = 1"
    by (simp only: double_1)
  have quot: "?quot = 8540159293384052 / 2 ^ 61"
    by (simp only: diff, simp only: double_270 slight_quotient)
  have gross: "?gross = 6671999447956291 / 2 ^ 54"
    by (simp only: quot, simp only: slight_gross)
  have prod: "?prod = 7205759403792795 / 2 ^ 55"
    by (simp only: gross, simp only: double_confidence_slight, simp only: slight_product)
  have "?prod - double 0.2 = 1 / 2 ^ 55"
    by (simp only: prod, simp only: double_fee)
  then have res: "double (?prod - double 0.2) = 1 / 2 ^ 55"
    by (simp only: slight_difference)
  have gt: "double 0.54 > 0.50"
    by (simp only: double_confidence_slight) simp
  show ?thesis
    unfolding tradingReturnDouble_def Let_def assms using gt res by simp
qed

text \<open>Closes 100 and 110 with confidence 0.8 and the predicted price 108.\<close>

lemma double_confidence_example: "double 0.8 = 3602879701896397 / 2 ^ 52"
  using double_eval[of "-1" "0.8"] by (simp add: pow2_def roundHalfEven_def)

lemma example_quotient: "double (10 / 100) = 3602879701896397 / 2 ^ 55"
  using double_eval[of "-4" "10 / 100"] by (simp add: pow2_def roundHalfEven_def)

lemma example_gross: "double (3602879701896397 / 2 ^ 55 * 100) = 10"
  using double_eval[of 3 "3602879701896397 / 2 ^ 55 * 100"]
  by (simp add: pow2_def roundHalfEven_def)

lemma example_product: "double (10 * (3602879701896397 / 2 ^ 52)) = 8"
  using double_eval[of 3 "10 * (3602879701896397 / 2 ^ 52)"]
  by (simp add: pow2_def roundHalfEven_def)

lemma example_difference:
  "double (8 - 7205759403792794 / 2 ^ 55) = 8782019273372467 / 2 ^ 50"
  using double_eval[of 2 "8 - 7205759403792794 / 2 ^ 55"]
  by (simp add: pow2_def roundHalfEven_def)

lemma tradingReturnDouble_example:
  assumes "predictedDirection p = ''up''" and "confidence p = 0.8"
  shows "tradingReturnDouble p 100 110 = Some (8782019273372467 / 2 ^ 50)"
proof -
  let ?diff = "double (double 110 - double 100)"
  let ?quot = "double (?diff / double 100)"
  let ?gross = "double (?quot * 100)"
  let ?prod = "double (?gross * double 0.8)"
  have "double 110 - double 100 = 10"
    by (simp add: double_100 double_110)
  then have diff: "?diff = 10"
    by (simp only: double_10)
  have quot: "?quot = 3602879701896397 / 2 ^ 55"
    by (simp only: diff, simp only: double_100 example_quotient)
  have gross: "?gross = 10"
    by (simp only: quot, simp only: example_gross)
  have prod: "?prod = 8"
    by (simp only: gross, simp only: double_confidence_example, simp only: example_product)
  have res: "double (?prod - double 0.2) = 8782019273372467 / 2 ^ 50"
    by (simp only: prod, simp only: double_fee, simp only: example_difference)
  have gt: "double 0.8 > 0.50"
    by (simp only: double_confidence_example) simp
  show ?thesis
    unfolding tradingReturnDouble_def Let_def assms using gt res by simp
qed

lemma example_error_quotient: "double (- 2 / 110) = - 2620276146833743 / 2 ^ 57"
  using double_eval[of "-6" "- 2 / 110"] by (simp add: pow2_def roundHalfEven_def)

lemma example_error_percent:
  "double (\<bar>- 2620276146833743 / 2 ^ 57\<bar> * 100) = 8188362958855447 / 2 ^ 52"
  using double_eval[of 0 "\<bar>- 2620276146833743 / 2 ^ 57\<bar> * 100"]
  by (simp add: pow2_def roundHalfEven_def)

lemma priceErrorPercentDouble_example:
  assumes "predictedPrice p = Some 108"
  shows "priceErrorPercentDouble p 110 = Some (8188362958855447 / 2 ^ 52)"
proof -
  let ?diff = "double (double 108 - double 110)"
  let ?quot = "double (?diff / double 110)"
  have "double 108 - double 110 = - 2"
    by (simp add: double_108 double_110)
  then have diff: "?diff = - 2"
    by (simp only: double_minus_2)
  have quot: "?quot = - 2620276146833743 / 2 ^ 57"
    by (simp only: diff, simp only: double_110 example_error_quotient)
  have res: "double (\<bar>?quot\<bar> * 100) = 8188362958855447 / 2 ^ 52"
    by (simp only: quot, simp only: example_error_percent)
  show ?thesis
    unfolding priceErrorPercentDouble_def Let_def assms using res by simp
qed

text \<open>A predicted price that is the actual close: the difference is 0 and so is every
  later result.\<close>

lemma priceErrorPercentDouble_equal:
  assumes "predictedPrice p = Some actualClose" and "actualClose \<noteq> 0"
  shows "priceErrorPercentDouble p actualClose = Some 0"
  using assms by (simp add: priceErrorPercentDouble_def Let_def double_0)


lemma updateData_metrics:
  "tradingReturn (updateData p a b r) = truthyToFixed2 (tradingReturnDouble p a b)"
  "priceErrorPercent (updateData p a b r) = truthyToFixed2 (priceErrorPercentDouble p b)"
  by (simp_all add: updateData_def updateDataWith_def Let_def)

section \<open>The prediction validator: one prediction\<close>




section \<open>The prediction validator: a run\<close>

lemma updateData_id: "pred_id (updateData p a b r) = pred_id r"
  by (simp add: updateData_def updateDataWith_def Let_def)

lemma updateData_isCorrect: "isCorrect (updateData p a b r) = Some (isCorrectOf p a b)"
  by (simp add: updateData_def updateDataWith_def Let_def)

lemma resolveRow_id: "pred_id (resolveRow prices r) = pred_id r"
  by (simp add: resolveRow_def updateData_id split: option.splits)

lemma updateWhereId_distinct:
  assumes "distinct (map pred_id rows)" and "p \<in> set rows"
  shows "updateWhereId (pred_id p) f rows = map (\<lambda>r. if r = p then f r else r) rows"
  unfolding updateWhereId_def
proof (rule map_cong[OF refl])
  fix r assume "r \<in> set rows"
  then have "pred_id r = pred_id p \<longleftrightarrow> r = p"
    using assms by (metis distinct_map inj_on_eq_iff)
  then show "(if pred_id r = pred_id p then f r else r) = (if r = p then f r else r)"
    by simp
qed

lemma validateLoop_rows:
  assumes "distinct (map pred_id rows)" and "distinct (map pred_id sel)" and "set sel \<subseteq> set rows"
  shows "fst (validateLoop prices sel rows counts)
           = map (\<lambda>r. if r \<in> set sel then resolveRow prices r else r) rows"
  using assms
proof (induction sel arbitrary: rows counts)
  case Nil
  then show ?case by simp
next
  case (Cons p sel)
  have p_in: "p \<in> set rows" and sel_in: "set sel \<subseteq> set rows"
    using Cons.prems(3) by simp_all
  have p_notin: "p \<notin> set sel" and sel_distinct: "distinct (map pred_id sel)"
    using Cons.prems(2) by auto
  show ?case
  proof (cases "lookupCloses prices p")
    case None
    then have "resolveRow prices p = p" by (simp add: resolveRow_def)
    then have "map (\<lambda>r. if r \<in> set (p # sel) then resolveRow prices r else r) rows
             = map (\<lambda>r. if r \<in> set sel then resolveRow prices r else r) rows"
      by (intro map_cong) auto
    then show ?thesis
      using None Cons.IH[OF Cons.prems(1) sel_distinct sel_in] by simp
  next
    case (Some closes)
    obtain a b where closes: "closes = (a, b)" by (cases closes)
    let ?rows' = "updateWhereId (pred_id p) (updateData p a b) rows"
    have rows': "?rows' = map (\<lambda>r. if r = p then resolveRow prices p else r) rows"
      using updateWhereId_distinct[OF Cons.prems(1) p_in, of "updateData p a b"] Some closes
      by (auto simp: resolveRow_def intro!: map_cong)
    have ids: "map pred_id ?rows' = map pred_id rows"
      unfolding rows' by (simp add: resolveRow_id comp_def cong: map_cong)
    have d': "distinct (map pred_id ?rows')"
      using ids Cons.prems(1) by simp
    have sub': "set sel \<subseteq> set ?rows'"
    proof
      fix q assume q: "q \<in> set sel"
      then have "q \<in> set rows" "q \<noteq> p" using sel_in p_notin by auto
      then show "q \<in> set ?rows'" unfolding rows' by force
    qed
    have fresh: "resolveRow prices p \<notin> set sel"
    proof
      assume "resolveRow prices p \<in> set sel"
      then have "pred_id p \<in> pred_id ` set sel"
        using resolveRow_id[of prices p] by (metis imageI)
      then show False using Cons.prems(2) by simp
    qed
    have "fst (validateLoop prices (p # sel) rows counts)
            = map (\<lambda>r. if r \<in> set sel then resolveRow prices r else r) ?rows'"
      using Some closes Cons.IH[OF d' sel_distinct sub'] by simp
    also have "\<dots> = map (\<lambda>r. if r \<in> set (p # sel) then resolveRow prices r else r) rows"
      unfolding rows' using fresh p_notin by (auto simp: comp_def)
    finally show ?thesis .
  qed
qed

lemma validateLoop_all_skipped:
  assumes "\<forall>p \<in> set sel. lookupCloses prices p = None"
  shows "validateLoop prices sel rows counts = (rows, counts)"
  using assms by (induction sel arbitrary: rows counts) simp_all

lemma validatePredictions_rows:
  assumes "distinct (map pred_id (predictions db))"
  shows "predictions (fst (validatePredictions tz now db))
           = map (validateRow (startOfDay tz now) (stockPrices db)) (predictions db)"
    and "stockPrices (fst (validatePredictions tz now db)) = stockPrices db"
proof -
  let ?today = "startOfDay tz now"
  let ?sel = "unvalidatedPredictions ?today (predictions db)"
  have d: "distinct (map pred_id ?sel)"
    unfolding unvalidatedPredictions_def using assms by (rule distinct_map_filter)
  have s: "set ?sel \<subseteq> set (predictions db)"
    by (auto simp: unvalidatedPredictions_def)
  have "fst (validateLoop (stockPrices db) ?sel (predictions db) c)
          = map (validateRow ?today (stockPrices db)) (predictions db)" for c
    unfolding validateLoop_rows[OF assms d s]
    by (intro map_cong) (auto simp: validateRow_def unvalidatedPredictions_def)
  then show "predictions (fst (validatePredictions tz now db))
           = map (validateRow (startOfDay tz now) (stockPrices db)) (predictions db)"
    by (simp add: validatePredictions_def Let_def split: prod.splits) (metis fst_conv)
  show "stockPrices (fst (validatePredictions tz now db)) = stockPrices db"
    by (simp add: validatePredictions_def Let_def split: prod.splits)
qed

lemma validateRow_id: "pred_id (validateRow today prices r) = pred_id r"
  by (simp add: validateRow_def resolveRow_id)

lemma resolveRow_cases:
  "resolveRow prices r = r \<and> lookupCloses prices r = None \<or>
   isCorrect (resolveRow prices r) \<noteq> None"
  by (cases "lookupCloses prices r") (auto simp: resolveRow_def updateData_isCorrect)

lemma validateRow_changed:
  assumes "validateRow today prices r \<noteq> r"
  shows "targetDate r < today \<and> isCorrect r = None \<and> isCorrect (validateRow today prices r) \<noteq> None"
proof -
  have sel: "targetDate r < today \<and> isCorrect r = None"
    using assms by (simp add: validateRow_def split: if_splits)
  then have "validateRow today prices r = resolveRow prices r"
    by (simp add: validateRow_def)
  then show ?thesis
    using sel assms resolveRow_cases[of prices r] by auto
qed

lemma validateRow_resolved:
  assumes "isCorrect r \<noteq> None"
  shows "validateRow today prices r = r"
  using assms by (auto simp: validateRow_def)

lemma validateRow_still_pending:
  assumes "isCorrect (validateRow today prices r) = None"
    and "targetDate (validateRow today prices r) < today"
  shows "lookupCloses prices (validateRow today prices r) = None"
proof -
  have same: "validateRow today prices r = r"
    using assms(1) validateRow_changed[of today prices r] by auto
  then have sel: "targetDate r < today" "isCorrect r = None"
    using assms by simp_all
  then have "resolveRow prices r = r"
    using same by (simp add: validateRow_def)
  then have "lookupCloses prices r = None"
    using sel(2) resolveRow_cases[of prices r] by auto
  then show ?thesis
    using same by simp
qed

lemma startOfDay_floor:
  "startOfDay tz now \<le> now \<and> now < startOfDay tz now + msPerDay \<and>
   (startOfDay tz now + tz) mod msPerDay = 0"
proof -
  have m: "0 < msPerDay"
    by (simp add: msPerDay_def)
  have range: "0 \<le> (now + tz) mod msPerDay" "(now + tz) mod msPerDay < msPerDay"
    using m by simp_all
  have "now - (now + tz) mod msPerDay + tz = (now + tz) - (now + tz) mod msPerDay"
    by simp
  also have "\<dots> = (now + tz) div msPerDay * msPerDay"
    by (simp add: minus_mod_eq_div_mult)
  finally have "(now - (now + tz) mod msPerDay + tz) mod msPerDay = 0"
    by simp
  then show ?thesis
    using range by (simp add: startOfDay_def)
qed

lemma validatePredictions_again:
  assumes "distinct (map pred_id (predictions db))"
  shows "validatePredictions tz now (fst (validatePredictions tz now db))
           = (fst (validatePredictions tz now db), \<lparr>validated = 0, correct = 0, incorrect = 0\<rparr>)"
proof -
  let ?today = "startOfDay tz now"
  let ?db' = "fst (validatePredictions tz now db)"
  have rows': "predictions ?db' = map (validateRow ?today (stockPrices db)) (predictions db)"
    and prices': "stockPrices ?db' = stockPrices db"
    using validatePredictions_rows[OF assms] by simp_all
  have "\<forall>p \<in> set (unvalidatedPredictions ?today (predictions ?db')).
          lookupCloses (stockPrices ?db') p = None"
    unfolding rows' prices' unvalidatedPredictions_def
    using validateRow_still_pending by auto
  then have "validateLoop (stockPrices ?db') (unvalidatedPredictions ?today (predictions ?db'))
               (predictions ?db') c = (predictions ?db', c)" for c
    by (rule validateLoop_all_skipped)
  then show ?thesis
    by (simp add: validatePredictions_def[of tz now ?db'] Let_def)
qed

text \<open>
  Claim C4. In a table with distinct ids: \<open>today\<close> is the time of the run floored to
  midnight; the query selects the rows whose target date is strictly before \<open>today\<close> and
  whose \<open>isCorrect\<close> is null; a run changes a row only if the row is selected, and then
  leaves it with \<open>isCorrect\<close> set; a row whose \<open>isCorrect\<close> is set is never changed;
  the price rows stay as they are; whatever the day, the query on the result selects no
  row whose \<open>isCorrect\<close> is set; and a second run at the same time on the result
  validates nothing and changes nothing.
\<close>

theorem C4_resolved_at_most_once:
  assumes "distinct (map pred_id (predictions db))"
  shows "startOfDay tz now \<le> now \<and> now < startOfDay tz now + msPerDay \<and>
         (startOfDay tz now + tz) mod msPerDay = 0 \<and>
         set (unvalidatedPredictions (startOfDay tz now) (predictions db))
           = {p \<in> set (predictions db). targetDate p < startOfDay tz now \<and> isCorrect p = None} \<and>
         length (predictions (fst (validatePredictions tz now db))) = length (predictions db) \<and>
         distinct (map pred_id (predictions (fst (validatePredictions tz now db)))) \<and>
         stockPrices (fst (validatePredictions tz now db)) = stockPrices db \<and>
         (\<forall>k < length (predictions db).
            (predictions (fst (validatePredictions tz now db)) ! k \<noteq> predictions db ! k \<longrightarrow>
               targetDate (predictions db ! k) < startOfDay tz now \<and>
               isCorrect (predictions db ! k) = None \<and>
               isCorrect (predictions (fst (validatePredictions tz now db)) ! k) \<noteq> None) \<and>
            (isCorrect (predictions db ! k) \<noteq> None \<longrightarrow>
               predictions (fst (validatePredictions tz now db)) ! k = predictions db ! k)) \<and>
         (\<forall>today'. \<forall>q \<in> set (unvalidatedPredictions today'
                                   (predictions (fst (validatePredictions tz now db)))).
            isCorrect q = None) \<and>
         validatePredictions tz now (fst (validatePredictions tz now db))
           = (fst (validatePredictions tz now db), \<lparr>validated = 0, correct = 0, incorrect = 0\<rparr>)"
proof -
  let ?today = "startOfDay tz now"
  let ?db' = "fst (validatePredictions tz now db)"
  have rows': "predictions ?db' = map (validateRow ?today (stockPrices db)) (predictions db)"
    and prices': "stockPrices ?db' = stockPrices db"
    using validatePredictions_rows[OF assms] by simp_all
  have sel: "set (unvalidatedPredictions ?today (predictions db))
           = {p \<in> set (predictions db). targetDate p < ?today \<and> isCorrect p = None}"
    by (auto simp: unvalidatedPredictions_def)
  have len: "length (predictions ?db') = length (predictions db)"
    by (simp add: rows')
  have dist: "distinct (map pred_id (predictions ?db'))"
    using assms by (simp add: rows' comp_def validateRow_id)
  have once: "\<forall>k < length (predictions db).
            (predictions ?db' ! k \<noteq> predictions db ! k \<longrightarrow>
               targetDate (predictions db ! k) < ?today \<and>
               isCorrect (predictions db ! k) = None \<and>
               isCorrect (predictions ?db' ! k) \<noteq> None) \<and>
            (isCorrect (predictions db ! k) \<noteq> None \<longrightarrow>
               predictions ?db' ! k = predictions db ! k)"
  proof (intro allI impI)
    fix k assume k: "k < length (predictions db)"
    let ?r = "predictions db ! k"
    have nth: "predictions ?db' ! k = validateRow ?today (stockPrices db) ?r"
      using k by (simp add: rows')
    have changed: "predictions ?db' ! k \<noteq> ?r \<longrightarrow>
               targetDate ?r < ?today \<and> isCorrect ?r = None \<and>
               isCorrect (predictions ?db' ! k) \<noteq> None"
      unfolding nth using validateRow_changed[of ?today "stockPrices db" ?r] by blast
    have kept: "isCorrect ?r \<noteq> None \<longrightarrow> predictions ?db' ! k = ?r"
      unfolding nth using validateRow_resolved[of ?r ?today "stockPrices db"] by blast
    show "(predictions ?db' ! k \<noteq> ?r \<longrightarrow>
               targetDate ?r < ?today \<and> isCorrect ?r = None \<and>
               isCorrect (predictions ?db' ! k) \<noteq> None) \<and>
            (isCorrect ?r \<noteq> None \<longrightarrow> predictions ?db' ! k = ?r)"
      using changed kept by (rule conjI)
  qed
  have later: "\<forall>today'. \<forall>q \<in> set (unvalidatedPredictions today' (predictions ?db')).
                 isCorrect q = None"
    by (simp add: unvalidatedPredictions_def)
  have floor: "?today \<le> now" "now < ?today + msPerDay" "(?today + tz) mod msPerDay = 0"
    using startOfDay_floor[of tz now] by simp_all
  show ?thesis
    by (intro conjI floor sel len dist prices' once later validatePredictions_again[OF assms])
qed

lemmas validator_defs =
  validatePredictions_def unvalidatedPredictions_def lookupCloses_def findFirstAsc_def
  findFirstDesc_def updateWhereId_def updateData_def updateDataWith_def isCorrectOf_def
  actualDirectionOf_def tradingReturnDouble_example priceErrorPercentDouble_example
  tradingReturnDouble_sure truthyToFixed2_def toFixed_def startOfDay_def msPerDay_def

lemma exampleDb_run:
  "validatePredictions 0 exampleNow exampleDb =
     (exampleDb\<lparr>predictions :=
        [predictionUp\<lparr>actualDirection := Some ''up'', actualPrice := Some 110,
                       actualChangePercent := Some 10, isCorrect := Some True,
                       confidenceWeightedScore := Some 0.8, priceErrorPercent := Some 1.82,
                       tradingReturn := Some 7.8\<rparr>,
         predictionResolved, predictionFuture]\<rparr>,
      \<lparr>validated = 1, correct = 1, incorrect = 0\<rparr>)"
  by (simp add: validator_defs exampleDb_def exampleNow_def predictionUp_def
      predictionResolved_def predictionFuture_def priceRow_def Let_def)

theorem C4_resolved_at_most_once_witness:
  "distinct (map pred_id (predictions exampleDb)) \<and>
   startOfDay 0 exampleNow = 172800000 \<and>
   snd (validatePredictions 0 exampleNow exampleDb) = \<lparr>validated = 1, correct = 1, incorrect = 0\<rparr> \<and>
   isCorrect (predictions (fst (validatePredictions 0 exampleNow exampleDb)) ! 0) = Some True \<and>
   predictions (fst (validatePredictions 0 exampleNow exampleDb)) ! 1 = predictionResolved \<and>
   validatePredictions 0 exampleNow (fst (validatePredictions 0 exampleNow exampleDb))
     = (fst (validatePredictions 0 exampleNow exampleDb),
        \<lparr>validated = 0, correct = 0, incorrect = 0\<rparr>)"
proof -
  have d: "distinct (map pred_id (predictions exampleDb))"
    by (simp add: exampleDb_def predictionUp_def predictionResolved_def predictionFuture_def)
  have t: "startOfDay 0 exampleNow = 172800000"
    by (simp add: startOfDay_def exampleNow_def msPerDay_def)
  show ?thesis
    using C4_resolved_at_most_once[OF d, of 0 exampleNow] d t by (simp add: exampleDb_run)
qed

section \<open>The prediction validator: metrics that are 0\<close>

lemma validatePredictions_writes:
  assumes "distinct (map pred_id (predictions db))"
    and "k < length (predictions db)"
    and "targetDate (predictions db ! k) < startOfDay tz now"
    and "isCorrect (predictions db ! k) = None"
    and "lookupCloses (stockPrices db) (predictions db ! k) = Some (prev, act)"
  shows "predictions (fst (validatePredictions tz now db)) ! k
           = updateData (predictions db ! k) prev act (predictions db ! k)"
  using assms by (simp add: validatePredictions_rows(1) validateRow_def resolveRow_def)

lemma sureDb_run:
  "validatePredictions 0 exampleNow sureDb =
     (sureDb\<lparr>predictions :=
        [predictionSure\<lparr>actualDirection := Some ''up'', actualPrice := Some 1002,
                         actualChangePercent := Some 0.2, isCorrect := Some True,
                         confidenceWeightedScore := Some 1, priceErrorPercent := None,
                         tradingReturn := None\<rparr>]\<rparr>,
      \<lparr>validated = 1, correct = 1, incorrect = 0\<rparr>)"
  by (simp add: validator_defs priceErrorPercentDouble_def sureDb_def exampleNow_def
      predictionSure_def predictionUp_def priceRow_def Let_def)

text \<open>
  Over the real numbers the gross return of the closes 270 and 271 times the confidence
  0.54 is 0.2; the doubles of the iteration differ by \<open>2 ^ -55\<close>, and the row gets the
  trading return 0, not null.
\<close>

lemma slight_stores_zero:
  "tradingReturnOf predictionSlight 270 271 = Some 0 \<and>
   tradingReturnDouble predictionSlight 270 271 = Some (1 / 2 ^ 55) \<and>
   tradingReturn (updateData predictionSlight 270 271 predictionSlight) = Some 0"
proof -
  have d: "tradingReturnDouble predictionSlight 270 271 = Some (1 / 2 ^ 55)"
    by (rule tradingReturnDouble_slight) (simp_all add: predictionSlight_def predictionUp_def)
  have e: "tradingReturnOf predictionSlight 270 271 = Some 0"
    by (simp add: tradingReturnOf_def predictionSlight_def predictionUp_def Let_def)
  have "truthyToFixed2 (Some (1 / 2 ^ 55)) = Some 0"
    by (simp add: truthyToFixed2_def toFixed_def)
  then have s: "tradingReturn (updateData predictionSlight 270 271 predictionSlight) = Some 0"
    by (simp only: updateData_metrics d)
  show ?thesis
    by (intro conjI e d s)
qed

text \<open>
  Claim C9. Let a run resolve the prediction \<open>p\<close> (unvalidated, with a target date before
  today and both closes found, which as prices are positive, so that no division is by 0)
  and write \<open>row\<close>. The row is resolved, and its trading
  return and price error are the computed numbers put through the truthiness test: a
  computed trading return of exactly 0 is stored as null, and so is a computed price error
  of exactly 0, which is what a predicted price equal to the actual close gives; a
  predicted price of 0 gives no price error at all. "Computed" is in the doubles of the
  iteration: for an "up" prediction whose confidence is above 0.50, the trading return is 0
  when the rounded product of gross return and confidence is the double of 0.2. The run
  over \<open>sureDb\<close> (closes 1000 and 1002, confidence 1) is such a case: the prediction is
  resolved as correct with a null trading return.
\<close>

theorem C9_zero_metric_stored_null:
  assumes "distinct (map pred_id (predictions db))"
    and "k < length (predictions db)"
    and "p = predictions db ! k"
    and "targetDate p < startOfDay tz now"
    and "isCorrect p = None"
    and "lookupCloses (stockPrices db) p = Some (previousClose, actualClose)"
    and "0 < previousClose" and "0 < actualClose"
    and "row = predictions (fst (validatePredictions tz now db)) ! k"
  shows "isCorrect row = Some (isCorrectOf p previousClose actualClose) \<and>
         tradingReturn row = truthyToFixed2 (tradingReturnDouble p previousClose actualClose) \<and>
         priceErrorPercent row = truthyToFixed2 (priceErrorPercentDouble p actualClose) \<and>
         (tradingReturnDouble p previousClose actualClose = Some 0 \<longrightarrow>
            tradingReturn row = None) \<and>
         (priceErrorPercentDouble p actualClose = Some 0 \<longrightarrow> priceErrorPercent row = None) \<and>
         (predictedPrice p = Some actualClose \<longrightarrow> priceErrorPercent row = None) \<and>
         (predictedPrice p = Some 0 \<longrightarrow>
            priceErrorPercentDouble p actualClose = None \<and>
            priceErrorPercentOf p actualClose = None \<and> priceErrorPercent row = None) \<and>
         (double (confidence p) > 0.50 \<and> predictedDirection p = ''up'' \<and>
          double (double (double (double (double actualClose - double previousClose)
                                    / double previousClose) * 100) * double (confidence p))
            = double 0.2 \<longrightarrow>
            tradingReturnDouble p previousClose actualClose = Some 0 \<and>
            tradingReturn row = None) \<and>
         confidence predictionSure > 0.50 \<and>
         isCorrect (predictions (fst (validatePredictions 0 exampleNow sureDb)) ! 0)
           = Some True \<and>
         tradingReturn (predictions (fst (validatePredictions 0 exampleNow sureDb)) ! 0) = None"
proof -
  have w: "row = updateData p previousClose actualClose p"
    using assms validatePredictions_writes[of db k tz now previousClose actualClose] by simp
  have resolved: "isCorrect row = Some (isCorrectOf p previousClose actualClose)"
    by (simp add: w updateData_isCorrect)
  have tr: "tradingReturn row = truthyToFixed2 (tradingReturnDouble p previousClose actualClose)"
    and pe: "priceErrorPercent row = truthyToFixed2 (priceErrorPercentDouble p actualClose)"
    by (simp_all add: w updateData_metrics)
  have tr0: "tradingReturnDouble p previousClose actualClose = Some 0 \<longrightarrow>
            tradingReturn row = None"
    by (simp add: tr truthyToFixed2_def)
  have pe0: "priceErrorPercentDouble p actualClose = Some 0 \<longrightarrow> priceErrorPercent row = None"
    by (simp add: pe truthyToFixed2_def)
  have equal: "predictedPrice p = Some actualClose \<longrightarrow> priceErrorPercent row = None"
    by (simp add: pe truthyToFixed2_def priceErrorPercentDouble_def Let_def double_0)
  have absent: "predictedPrice p = Some 0 \<longrightarrow>
            priceErrorPercentDouble p actualClose = None \<and>
            priceErrorPercentOf p actualClose = None \<and> priceErrorPercent row = None"
    by (simp add: pe truthyToFixed2_def priceErrorPercentDouble_def priceErrorPercentOf_def)
  have zero: "double (confidence p) > 0.50 \<and> predictedDirection p = ''up'' \<and>
          double (double (double (double (double actualClose - double previousClose)
                                    / double previousClose) * 100) * double (confidence p))
            = double 0.2 \<longrightarrow>
            tradingReturnDouble p previousClose actualClose = Some 0 \<and>
            tradingReturn row = None"
    by (simp add: tr truthyToFixed2_def tradingReturnDouble_def Let_def double_0)
  have conf: "confidence predictionSure > 0.50"
    by (simp add: predictionSure_def)
  have res: "isCorrect (predictions (fst (validatePredictions 0 exampleNow sureDb)) ! 0)
               = Some True"
    "tradingReturn (predictions (fst (validatePredictions 0 exampleNow sureDb)) ! 0) = None"
    by (simp_all add: sureDb_run)
  show ?thesis
    by (intro conjI resolved tr pe tr0 pe0 equal absent zero conf res)
qed

theorem C9_zero_metric_stored_null_witness:
  "distinct (map pred_id (predictions sureDb)) \<and>
   lookupCloses (stockPrices sureDb) predictionSure = Some (1000, 1002) \<and>
   (0::real) < 1000 \<and> (0::real) < 1002 \<and>
   confidence predictionSure > 0.50 \<and>
   predictedPrice predictionSure = Some 0 \<and>
   tradingReturnDouble predictionSure 1000 1002 = Some 0 \<and>
   isCorrect (predictions (fst (validatePredictions 0 exampleNow sureDb)) ! 0) = Some True \<and>
   tradingReturn (predictions (fst (validatePredictions 0 exampleNow sureDb)) ! 0) = None \<and>
   priceErrorPercent (predictions (fst (validatePredictions 0 exampleNow sureDb)) ! 0) = None \<and>
   lookupCloses (stockPrices equalDb) predictionUp = Some (100, 108) \<and>
   predictedPrice predictionUp = Some 108 \<and>
   priceErrorPercentDouble predictionUp 108 = Some 0 \<and>
   priceErrorPercent (predictions (fst (validatePredictions 0 exampleNow equalDb)) ! 0) = None"
proof -
  have d: "distinct (map pred_id (predictions sureDb))"
    by (simp add: sureDb_def)
  have l: "lookupCloses (stockPrices sureDb) predictionSure = Some (1000, 1002)"
    by (simp add: sureDb_def lookupCloses_def findFirstAsc_def findFirstDesc_def priceRow_def
        predictionSure_def predictionUp_def msPerDay_def Let_def)
  have t: "targetDate predictionSure < startOfDay 0 exampleNow"
    by (simp add: predictionSure_def predictionUp_def startOfDay_def exampleNow_def msPerDay_def)
  have c: "confidence predictionSure > 0.50"
    and p: "predictedPrice predictionSure = Some 0"
    and i: "isCorrect predictionSure = None"
    by (simp_all add: predictionSure_def predictionUp_def)
  have z: "tradingReturnDouble predictionSure 1000 1002 = Some 0"
    by (rule tradingReturnDouble_sure) (simp_all add: predictionSure_def predictionUp_def)
  have c': "isCorrectOf predictionSure 1000 1002"
    by (simp add: isCorrectOf_def actualDirectionOf_def predictionSure_def predictionUp_def
        Let_def)
  have pos: "(0::real) < 1000" "(0::real) < 1002"
    by simp_all
  have k: "0 < length (predictions sureDb)"
    and r: "predictionSure = predictions sureDb ! 0"
    by (simp_all add: sureDb_def)
  note sure = C9_zero_metric_stored_null[OF d k r t i l pos refl]
  have "isCorrect (predictions (fst (validatePredictions 0 exampleNow sureDb)) ! 0)
          = Some (isCorrectOf predictionSure 1000 1002)"
    using sure by blast
  then have s1: "isCorrect (predictions (fst (validatePredictions 0 exampleNow sureDb)) ! 0)
              = Some True"
    using c' by simp
  have s2: "tradingReturn (predictions (fst (validatePredictions 0 exampleNow sureDb)) ! 0)
              = None"
    using sure z by blast
  have s3: "priceErrorPercent (predictions (fst (validatePredictions 0 exampleNow sureDb)) ! 0)
              = None"
    using sure p by blast
  have d': "distinct (map pred_id (predictions equalDb))"
    by (simp add: equalDb_def)
  have l': "lookupCloses (stockPrices equalDb) predictionUp = Some (100, 108)"
    by (simp add: equalDb_def lookupCloses_def findFirstAsc_def findFirstDesc_def priceRow_def
        predictionUp_def msPerDay_def Let_def)
  have t': "targetDate predictionUp < startOfDay 0 exampleNow"
    by (simp add: predictionUp_def startOfDay_def exampleNow_def msPerDay_def)
  have p': "predictedPrice predictionUp = Some 108"
    and i': "isCorrect predictionUp = None"
    by (simp_all add: predictionUp_def)
  have z': "priceErrorPercentDouble predictionUp 108 = Some 0"
    by (rule priceErrorPercentDouble_equal) (simp_all add: predictionUp_def)
  have pos': "(0::real) < 100" "(0::real) < 108"
    by simp_all
  have k': "0 < length (predictions equalDb)"
    and r': "predictionUp = predictions equalDb ! 0"
    by (simp_all add: equalDb_def)
  note equal = C9_zero_metric_stored_null[OF d' k' r' t' i' l' pos' refl]
  have e1: "priceErrorPercent (predictions (fst (validatePredictions 0 exampleNow equalDb)) ! 0)
              = None"
    using equal z' by blast
  show ?thesis
    by (intro conjI d l pos c p z s1 s2 s3 l' p' z' e1)
qed

section \<open>The trading simulator: capital\<close>

lemma tradeLoop_capital:
  "fst (tradeLoop strategy ps c ts op) - sum_list (map t_return (snd (tradeLoop strategy ps c ts op)))
     = c - sum_list (map t_return ts)"
  by (induction ps arbitrary: c ts) (simp_all add: Let_def)

text \<open>
  Claim C6. The starting capital is 100000. An iteration that trades continues with the
  capital plus the return of its trade, and the capital the loop ends with is the starting
  capital plus the sum of the returns of the trades in the list, for every strategy and
  every table of predictions.
\<close>

theorem C6_capital_is_start_plus_returns:
  "startingCapital = 100000 \<and>
   fst (simulateLedger strategy rows)
     = startingCapital + sum_list (map t_return (snd (simulateLedger strategy rows))) \<and>
   tradeLoop strategy (p # rest) c ts Map.empty =
     (if c < positionSize strategy then tradeLoop strategy rest c ts Map.empty
      else tradeLoop strategy rest
             (c + t_return (tradeOf (branchType p) p (positionSize strategy)))
             (ts @ [tradeOf (branchType p) p (positionSize strategy)]) Map.empty)"
  using tradeLoop_capital[of strategy "simulationPredictions strategy rows" startingCapital "[]" Map.empty]
  by (simp add: simulateLedger_def startingCapital_def Let_def)

text \<open>
  Claim C1 fails on the code: the map of open positions stays empty, so the test for an
  open position never skips. Under the default strategy two validated predictions for the
  same company, both with confidence 0.8, give two trades of that company, one for each.
\<close>

theorem C1_second_prediction_also_trades:
  "companyId validatedFirst = companyId validatedSecond \<and>
   confidence validatedFirst \<ge> minConfidence DEFAULT_STRATEGY \<and>
   confidence validatedSecond \<ge> minConfidence DEFAULT_STRATEGY \<and>
   simulationPredictions DEFAULT_STRATEGY [validatedFirst, validatedSecond]
     = [validatedFirst, validatedSecond] \<and>
   map (\<lambda>t. (t_date t, t_ticker t, t_type t, t_return t))
     (snd (simulateLedger DEFAULT_STRATEGY [validatedFirst, validatedSecond]))
     = [(86400000, ''EQNR.OL'', ''BUY'', 980), (172800000, ''EQNR.OL'', ''BUY'', 980)] \<and>
   fst (simulateLedger DEFAULT_STRATEGY [validatedFirst, validatedSecond]) = 101960"
  by (simp add: simulateLedger_def simulationPredictions_def DEFAULT_STRATEGY_def
      validatedFirst_def validatedSecond_def predictionUp_def tradeOf_def branchType_def
      startingCapital_def Let_def del: not_None_eq)

section \<open>getTradingRecommendations: facts\<close>

text \<open>
  Claim C10. Every recommendation returned for a prediction with confidence at least 0.60
  is BUY, for the predicted direction "up", or SHORT, for any other; and when
  \<open>minConfidence\<close> is at least 0.60 every returned recommendation has such a confidence,
  so none is HOLD.
\<close>

theorem C10_no_hold_at_or_above_60:
  "\<forall>r \<in> set (getTradingRecommendations now minC rows).
     (r_confidence r \<ge> 0.60 \<longrightarrow>
        r_recommendation r = (if r_predictedDirection r = ''up'' then ''BUY'' else ''SHORT'')) \<and>
     (minC \<ge> 0.60 \<longrightarrow> r_recommendation r \<noteq> ''HOLD'' \<and> r_confidence r \<ge> 0.60)"
  by (auto simp: getTradingRecommendations_def recommend_def Let_def)

theorem C10_no_hold_at_or_above_60_witness:
  "(0.60::real) \<ge> 0.60 \<and>
   length (getTradingRecommendations 0 0.60 [predictionDown]) = 1 \<and>
   r_confidence (getTradingRecommendations 0 0.60 [predictionDown] ! 0) \<ge> 0.60 \<and>
   r_recommendation (getTradingRecommendations 0 0.60 [predictionDown] ! 0) \<noteq> ''HOLD'' \<and>
   r_recommendation (getTradingRecommendations 0 0.60 [predictionDown] ! 0) = ''SHORT''"
  using C10_no_hold_at_or_above_60[of 0 "0.60" "[predictionDown]"]
  by (simp add: getTradingRecommendations_def predictionDown_def predictionUp_def recommend_def
      Let_def)

end
